theory Spec2Isabelle
  imports Main "HOL-Library.Word" "HOL-Library.Multiset"
begin

section \<open>Host interpreter values\<close>

text \<open>
  The glue of \<^verbatim>\<open>libvirt-override.c\<close> sits between the Python interpreter and the native
  library. The model follows the branches the file compiles for Python 3
  (\<^verbatim>\<open>PY_MAJOR_VERSION > 2\<close>) on an LP64 platform: a host integer is unbounded, a C
  \<^verbatim>\<open>int\<close> has 32 bits, \<^verbatim>\<open>long\<close>, \<^verbatim>\<open>long long\<close> and \<^verbatim>\<open>size_t\<close> have 64.
  A dictionary keeps its entries in insertion order, which is the order \<^verbatim>\<open>PyDict_Next\<close>
  walks them in. A \<^verbatim>\<open>double\<close> is carried as its 64-bit pattern; no floating-point
  arithmetic is done on it. An allocation is taken to succeed, except where a flag of
  the environment says otherwise.
\<close>

type_synonym double = "64 word"

datatype PyObject =
    PyNone
  | PyBool bool
  | PyLong int
  | PyFloat double
  | PyStr string
  | PyList "PyObject list"
  | PyTuple "PyObject list"
  | PyDict "(PyObject \<times> PyObject) list"
  | PyCapsule nat

datatype PyExc = LookupError | TypeError | OverflowError | SystemError | MemoryError | AttributeError

text \<open>
  What a C function of the glue hands back: a value, a failure with the Python exception
  it has set (type and message), or behaviour the C standard leaves undefined (a read of a
  union member that was not stored, a read past the end of an array).
\<close>

datatype 'a outcome = Return 'a | Raise PyExc string | Undefined

fun PyDict_SetItem :: "(PyObject \<times> PyObject) list \<Rightarrow> PyObject \<Rightarrow> PyObject \<Rightarrow> (PyObject \<times> PyObject) list" where
  "PyDict_SetItem [] key val = [(key, val)]"
| "PyDict_SetItem ((k, v) # info) key val =
     (if k = key then (k, val) # info else (k, v) # PyDict_SetItem info key val)"

text \<open>The text \<^verbatim>\<open>printf\<close> writes for \<^verbatim>\<open>%d\<close>.\<close>

fun show_nat :: "nat \<Rightarrow> string" where
  "show_nat n =
     (if n < 10 then [''0123456789'' ! n]
      else show_nat (n div 10) @ [''0123456789'' ! (n mod 10)])"

declare show_nat.simps [simp del]

definition show_int :: "int \<Rightarrow> string" where
  "show_int i = (if i < 0 then CHR ''-'' # show_nat (nat (- i)) else show_nat (nat i))"

section \<open>Typed parameters\<close>

text \<open>
  \<^verbatim>\<open>virTypedParameter\<close> of the native library: a name in an array of
  \<^verbatim>\<open>VIR_TYPED_PARAM_FIELD_LENGTH\<close> bytes, an \<^verbatim>\<open>int\<close> kind code and a union. The model
  of the union remembers which member was stored; reading another member is undefined.
  The string member is a pointer, \<open>None\<close> when it is \<^verbatim>\<open>NULL\<close>.
\<close>

datatype value_union =
    V_i "32 word"
  | V_ui "32 word"
  | V_l "64 word"
  | V_ul "64 word"
  | V_d double
  | V_b "8 word"
  | V_s "string option"

record virTypedParameter =
  p_field :: string
  p_type :: int
  p_value :: value_union

abbreviation (input) VIR_TYPED_PARAM_INT :: int where "VIR_TYPED_PARAM_INT \<equiv> 1"
abbreviation (input) VIR_TYPED_PARAM_UINT :: int where "VIR_TYPED_PARAM_UINT \<equiv> 2"
abbreviation (input) VIR_TYPED_PARAM_LLONG :: int where "VIR_TYPED_PARAM_LLONG \<equiv> 3"
abbreviation (input) VIR_TYPED_PARAM_ULLONG :: int where "VIR_TYPED_PARAM_ULLONG \<equiv> 4"
abbreviation (input) VIR_TYPED_PARAM_DOUBLE :: int where "VIR_TYPED_PARAM_DOUBLE \<equiv> 5"
abbreviation (input) VIR_TYPED_PARAM_BOOLEAN :: int where "VIR_TYPED_PARAM_BOOLEAN \<equiv> 6"
abbreviation (input) VIR_TYPED_PARAM_STRING :: int where "VIR_TYPED_PARAM_STRING \<equiv> 7"
abbreviation (input) VIR_TYPED_PARAM_FIELD_LENGTH :: nat where "VIR_TYPED_PARAM_FIELD_LENGTH \<equiv> 80"

fun value_i :: "value_union \<Rightarrow> 32 word option" where
  "value_i (V_i x) = Some x"
| "value_i _ = None"

fun value_ui :: "value_union \<Rightarrow> 32 word option" where
  "value_ui (V_ui x) = Some x"
| "value_ui _ = None"

fun value_l :: "value_union \<Rightarrow> 64 word option" where
  "value_l (V_l x) = Some x"
| "value_l _ = None"

fun value_ul :: "value_union \<Rightarrow> 64 word option" where
  "value_ul (V_ul x) = Some x"
| "value_ul _ = None"

fun value_d :: "value_union \<Rightarrow> double option" where
  "value_d (V_d x) = Some x"
| "value_d _ = None"

fun value_b :: "value_union \<Rightarrow> 8 word option" where
  "value_b (V_b x) = Some x"
| "value_b _ = None"

fun value_s :: "value_union \<Rightarrow> string option option" where
  "value_s (V_s x) = Some x"
| "value_s _ = None"

text \<open>
  The invariant of the data model: the kind code is one of the seven known ones and it is
  the union member of that kind that was stored.
\<close>

definition known_kind :: "virTypedParameter \<Rightarrow> bool" where
  "known_kind p =
     ((p_type p = VIR_TYPED_PARAM_INT \<and> value_i (p_value p) \<noteq> None) \<or>
      (p_type p = VIR_TYPED_PARAM_UINT \<and> value_ui (p_value p) \<noteq> None) \<or>
      (p_type p = VIR_TYPED_PARAM_LLONG \<and> value_l (p_value p) \<noteq> None) \<or>
      (p_type p = VIR_TYPED_PARAM_ULLONG \<and> value_ul (p_value p) \<noteq> None) \<or>
      (p_type p = VIR_TYPED_PARAM_DOUBLE \<and> value_d (p_value p) \<noteq> None) \<or>
      (p_type p = VIR_TYPED_PARAM_BOOLEAN \<and> value_b (p_value p) \<noteq> None) \<or>
      (p_type p = VIR_TYPED_PARAM_STRING \<and> value_s (p_value p) \<noteq> None))"

definition unknown_kind :: "virTypedParameter \<Rightarrow> bool" where
  "unknown_kind p = (p_type p < VIR_TYPED_PARAM_INT \<or> VIR_TYPED_PARAM_STRING < p_type p)"

section \<open>Wrappers of \<^verbatim>\<open>typewrappers.c\<close>, native to host\<close>

text \<open>
  Modelled from the spec: \<^verbatim>\<open>typewrappers.c\<close> and \<^verbatim>\<open>typewrappers.h\<close> are not part
  of the sources at hand. "Signed/unsigned/64-bit integers become numeric host values;
  Bool becomes a host boolean; String becomes a host string built from the native buffer".
  Each wrapper converts the C type its name gives: \<^verbatim>\<open>libvirt_intWrap\<close> an \<^verbatim>\<open>int\<close>,
  \<^verbatim>\<open>libvirt_uintWrap\<close> an \<^verbatim>\<open>unsigned int\<close>, \<^verbatim>\<open>libvirt_longlongWrap\<close> a
  \<^verbatim>\<open>long long\<close>, \<^verbatim>\<open>libvirt_ulonglongWrap\<close> an \<^verbatim>\<open>unsigned long long\<close>; a
  \<^verbatim>\<open>NULL\<close> string becomes \<^verbatim>\<open>None\<close>.
\<close>

text \<open>Modelled from the spec: \<^verbatim>\<open>libvirt_intWrap\<close> of \<^verbatim>\<open>typewrappers.c\<close>, a C \<^verbatim>\<open>int\<close> as a host integer.\<close>

definition libvirt_intWrap :: "32 word \<Rightarrow> PyObject" where
  "libvirt_intWrap val = PyLong (sint val)"

text \<open>Modelled from the spec: \<^verbatim>\<open>libvirt_uintWrap\<close> of \<^verbatim>\<open>typewrappers.c\<close>, an \<^verbatim>\<open>unsigned int\<close> as a host integer.\<close>

definition libvirt_uintWrap :: "32 word \<Rightarrow> PyObject" where
  "libvirt_uintWrap val = PyLong (uint val)"

text \<open>Modelled from the spec: \<^verbatim>\<open>libvirt_longlongWrap\<close> of \<^verbatim>\<open>typewrappers.c\<close>, a \<^verbatim>\<open>long long\<close> as a host integer.\<close>

definition libvirt_longlongWrap :: "64 word \<Rightarrow> PyObject" where
  "libvirt_longlongWrap val = PyLong (sint val)"

text \<open>Modelled from the spec: \<^verbatim>\<open>libvirt_ulonglongWrap\<close> of \<^verbatim>\<open>typewrappers.c\<close>, an \<^verbatim>\<open>unsigned long long\<close> as a host integer.\<close>

definition libvirt_ulonglongWrap :: "64 word \<Rightarrow> PyObject" where
  "libvirt_ulonglongWrap val = PyLong (uint val)"

text \<open>The interpreter's \<^verbatim>\<open>PyFloat_FromDouble\<close>: the same double as a host float.\<close>

definition PyFloat_FromDouble :: "double \<Rightarrow> PyObject" where
  "PyFloat_FromDouble d = PyFloat d"

text \<open>The interpreter's \<^verbatim>\<open>PyBool_FromLong\<close>: true for any number but 0.\<close>

definition PyBool_FromLong :: "int \<Rightarrow> PyObject" where
  "PyBool_FromLong v = PyBool (v \<noteq> 0)"

text \<open>Modelled from the spec: \<^verbatim>\<open>libvirt_constcharPtrWrap\<close> of \<^verbatim>\<open>typewrappers.c\<close>, a copy of the C string as a host string, \<^verbatim>\<open>None\<close> for \<^verbatim>\<open>NULL\<close>.\<close>

definition libvirt_constcharPtrWrap :: "string option \<Rightarrow> PyObject" where
  "libvirt_constcharPtrWrap str = (case str of None \<Rightarrow> PyNone | Some s \<Rightarrow> PyStr s)"

section \<open>\<^verbatim>\<open>getPyVirTypedParameter\<close>: native array to host dictionary\<close>

text \<open>
  The \<^verbatim>\<open>switch\<close> of lines 87 to 124 for one element. Line 93 passes the
  \<^verbatim>\<open>unsigned int\<close> member to \<^verbatim>\<open>libvirt_intWrap\<close>, whose parameter is an \<^verbatim>\<open>int\<close>:
  the 32 bits are read as a signed number.
\<close>

definition wrap_param_value :: "virTypedParameter \<Rightarrow> PyObject outcome" where
  \<open>wrap_param_value p =
     (if p_type p = VIR_TYPED_PARAM_INT then
        (case value_i (p_value p) of None \<Rightarrow> Undefined
         | Some i \<Rightarrow> Return (libvirt_intWrap i))
      else if p_type p = VIR_TYPED_PARAM_UINT then
        (case value_ui (p_value p) of None \<Rightarrow> Undefined
         | Some ui \<Rightarrow> Return (libvirt_intWrap ui))
      else if p_type p = VIR_TYPED_PARAM_LLONG then
        (case value_l (p_value p) of None \<Rightarrow> Undefined
         | Some l \<Rightarrow> Return (libvirt_longlongWrap l))
      else if p_type p = VIR_TYPED_PARAM_ULLONG then
        (case value_ul (p_value p) of None \<Rightarrow> Undefined
         | Some ul \<Rightarrow> Return (libvirt_ulonglongWrap ul))
      else if p_type p = VIR_TYPED_PARAM_DOUBLE then
        (case value_d (p_value p) of None \<Rightarrow> Undefined
         | Some d \<Rightarrow> Return (PyFloat_FromDouble d))
      else if p_type p = VIR_TYPED_PARAM_BOOLEAN then
        (case value_b (p_value p) of None \<Rightarrow> Undefined
         | Some b \<Rightarrow> Return (PyBool_FromLong (sint b)))
      else if p_type p = VIR_TYPED_PARAM_STRING then
        (case value_s (p_value p) of None \<Rightarrow> Undefined
         | Some s \<Rightarrow> Return (libvirt_constcharPtrWrap s))
      else Raise LookupError (''Type value "'' @ show_int (p_type p) @ ''" not recognized''))\<close>

text \<open>
  The loop of lines 86 to 137, \<open>n\<close> elements still to go. A failure leaves through
  \<^verbatim>\<open>cleanup\<close> and returns \<^verbatim>\<open>NULL\<close> with the exception set; the dictionary built so
  far is not handed out.
\<close>

fun getPyVirTypedParameter_loop ::
  "nat \<Rightarrow> virTypedParameter list \<Rightarrow> (PyObject \<times> PyObject) list \<Rightarrow> PyObject outcome" where
  "getPyVirTypedParameter_loop 0 params info = Return (PyDict info)"
| "getPyVirTypedParameter_loop (Suc n) [] info = Undefined"
| "getPyVirTypedParameter_loop (Suc n) (p # params) info =
     (case wrap_param_value p of
        Return val \<Rightarrow>
          getPyVirTypedParameter_loop n params
            (PyDict_SetItem info (libvirt_constcharPtrWrap (Some (p_field p))) val)
      | Raise e m \<Rightarrow> Raise e m
      | Undefined \<Rightarrow> Undefined)"

text \<open>
  The comparison \<^verbatim>\<open>i < nparams\<close> is made in \<^verbatim>\<open>size_t\<close>: a negative count becomes a
  count near \<open>2 ^ 64\<close>.
\<close>

definition size_t_of_int :: "int \<Rightarrow> nat" where
  "size_t_of_int n = (if n < 0 then nat (n + 2 ^ 64) else nat n)"

definition getPyVirTypedParameter :: "virTypedParameter list \<Rightarrow> int \<Rightarrow> PyObject outcome" where
  "getPyVirTypedParameter params nparams =
     getPyVirTypedParameter_loop (size_t_of_int nparams) params []"

section \<open>Wrappers of \<^verbatim>\<open>typewrappers.c\<close>, host to native\<close>

text \<open>
  Modelled from the spec: \<^verbatim>\<open>typewrappers.c\<close> is not part of the sources at hand.
  "A conversion failure (wrong host type, overflow, not-a-string-when-string-expected)
  aborts the whole encode". Each unwrapper accepts the host values that convert to its C
  type and fails with a type error on any other host type and with an overflow error on
  a number outside the range of the C type. A host boolean is an integer (0 or 1) to
  the integer conversions. The texts of these messages enter no statement below.
\<close>

text \<open>The interpreter's conversion of an integer object (a boolean is one) to its value.\<close>

fun as_long :: "PyObject \<Rightarrow> int option" where
  "as_long (PyLong n) = Some n"
| "as_long (PyBool b) = Some (if b then 1 else 0)"
| "as_long _ = None"

text \<open>Modelled from the spec: \<^verbatim>\<open>libvirt_intUnwrap\<close> of \<^verbatim>\<open>typewrappers.c\<close>, through \<^verbatim>\<open>long\<close> to \<^verbatim>\<open>int\<close>.\<close>

definition libvirt_intUnwrap :: "PyObject \<Rightarrow> 32 word outcome" where
  "libvirt_intUnwrap obj =
     (case as_long obj of
        None \<Rightarrow> Raise TypeError ''an integer is required''
      | Some long_val \<Rightarrow>
          if long_val < - (2 ^ 63) \<or> 2 ^ 63 \<le> long_val
          then Raise OverflowError ''Python int too large to convert to C long''
          else if - (2 ^ 31) \<le> long_val \<and> long_val < 2 ^ 31 then Return (word_of_int long_val)
          else Raise OverflowError ''Python int too large to convert to C int'')"

text \<open>Modelled from the spec: \<^verbatim>\<open>libvirt_uintUnwrap\<close> of \<^verbatim>\<open>typewrappers.c\<close>, through \<^verbatim>\<open>long\<close> to \<^verbatim>\<open>unsigned int\<close>.\<close>

definition libvirt_uintUnwrap :: "PyObject \<Rightarrow> 32 word outcome" where
  "libvirt_uintUnwrap obj =
     (case as_long obj of
        None \<Rightarrow> Raise TypeError ''an integer is required''
      | Some long_val \<Rightarrow>
          if long_val < - (2 ^ 63) \<or> 2 ^ 63 \<le> long_val
          then Raise OverflowError ''Python int too large to convert to C long''
          else if 0 \<le> long_val \<and> long_val < 2 ^ 32 then Return (word_of_int long_val)
          else Raise OverflowError ''Python int too large to convert to C unsigned int'')"

text \<open>Modelled from the spec: \<^verbatim>\<open>libvirt_longlongUnwrap\<close> of \<^verbatim>\<open>typewrappers.c\<close>.\<close>

definition libvirt_longlongUnwrap :: "PyObject \<Rightarrow> 64 word outcome" where
  "libvirt_longlongUnwrap obj =
     (case as_long obj of
        None \<Rightarrow> Raise TypeError ''an integer is required''
      | Some llong_val \<Rightarrow>
          if - (2 ^ 63) \<le> llong_val \<and> llong_val < 2 ^ 63 then Return (word_of_int llong_val)
          else Raise OverflowError ''Python int too large to convert to C long long'')"

text \<open>Modelled from the spec: \<^verbatim>\<open>libvirt_ulonglongUnwrap\<close> of \<^verbatim>\<open>typewrappers.c\<close>; a negative integer does not convert.\<close>

definition libvirt_ulonglongUnwrap :: "PyObject \<Rightarrow> 64 word outcome" where
  "libvirt_ulonglongUnwrap obj =
     (case as_long obj of
        None \<Rightarrow> Raise TypeError ''an integer is required''
      | Some ullong_val \<Rightarrow>
          if ullong_val < 0
          then Raise OverflowError ''can't convert negative int to unsigned''
          else if ullong_val < 2 ^ 64 then Return (word_of_int ullong_val)
          else Raise OverflowError ''int too big to convert'')"

text \<open>
  Modelled from the spec: \<^verbatim>\<open>libvirt_doubleUnwrap\<close> of \<^verbatim>\<open>typewrappers.c\<close>. The
  rounding of a host integer to a \<^verbatim>\<open>double\<close> is floating-point arithmetic; it is the
  parameter \<open>to_double\<close>, \<open>None\<close> when the integer is too large.
\<close>

definition libvirt_doubleUnwrap :: "(int \<Rightarrow> double option) \<Rightarrow> PyObject \<Rightarrow> double outcome" where
  "libvirt_doubleUnwrap to_double obj =
     (case obj of
        PyFloat d \<Rightarrow> Return d
      | _ \<Rightarrow>
         (case as_long obj of
            None \<Rightarrow> Raise TypeError ''must be real number''
          | Some n \<Rightarrow>
             (case to_double n of
                None \<Rightarrow> Raise OverflowError ''int too large to convert to float''
              | Some d \<Rightarrow> Return d)))"

text \<open>The truth value of a host object, as \<^verbatim>\<open>PyObject_IsTrue\<close> finds it.\<close>

fun PyObject_IsTrue :: "PyObject \<Rightarrow> bool" where
  "PyObject_IsTrue PyNone = False"
| "PyObject_IsTrue (PyBool b) = b"
| "PyObject_IsTrue (PyLong n) = (n \<noteq> 0)"
| "PyObject_IsTrue (PyFloat d) = (take_bit 63 d \<noteq> 0)"
| "PyObject_IsTrue (PyStr s) = (s \<noteq> [])"
| "PyObject_IsTrue (PyList xs) = (xs \<noteq> [])"
| "PyObject_IsTrue (PyTuple xs) = (xs \<noteq> [])"
| "PyObject_IsTrue (PyDict d) = (d \<noteq> [])"
| "PyObject_IsTrue (PyCapsule a) = True"

text \<open>Modelled from the spec: \<^verbatim>\<open>libvirt_boolUnwrap\<close> of \<^verbatim>\<open>typewrappers.c\<close>, the truth value of the object.\<close>

definition libvirt_boolUnwrap :: "PyObject \<Rightarrow> bool outcome" where
  "libvirt_boolUnwrap obj = Return (PyObject_IsTrue obj)"

text \<open>
  Modelled from the spec: \<^verbatim>\<open>libvirt_charPtrUnwrap\<close> of \<^verbatim>\<open>typewrappers.c\<close>. The
  copy it returns is owned by its caller.
\<close>

definition libvirt_charPtrUnwrap :: "PyObject \<Rightarrow> string outcome" where
  "libvirt_charPtrUnwrap obj =
     (case obj of PyStr s \<Rightarrow> Return s | _ \<Rightarrow> Raise TypeError ''expected a string'')"

section \<open>The native heap\<close>

text \<open>
  The buffers the glue owns: copies of strings and arrays of typed parameters (an array
  by its number of elements). The heap is the multiset of the live ones.
\<close>

datatype buffer = Buf_str string | Buf_params nat

type_synonym heap = "buffer multiset"

text \<open>
  \<^verbatim>\<open>virTypedParamsFree\<close> of the native library, from its documentation: it frees the
  string of every string-kind element among the first \<open>nparams\<close> (a \<^verbatim>\<open>NULL\<close> string
  is skipped), then the array; a \<^verbatim>\<open>NULL\<close> array is left alone. \<open>None\<close> is undefined
  behaviour: a count beyond the array, or a string-kind element that holds no string member.
\<close>

fun virTypedParamsClear :: "virTypedParameter list \<Rightarrow> heap \<Rightarrow> heap option" where
  "virTypedParamsClear [] h = Some h"
| "virTypedParamsClear (p # params) h =
     (if p_type p = VIR_TYPED_PARAM_STRING then
        (case value_s (p_value p) of
           None \<Rightarrow> None
         | Some None \<Rightarrow> virTypedParamsClear params h
         | Some (Some s) \<Rightarrow> virTypedParamsClear params (h - {#Buf_str s#}))
      else virTypedParamsClear params h)"

definition virTypedParamsFree :: "virTypedParameter list option \<Rightarrow> int \<Rightarrow> heap \<Rightarrow> heap option" where
  "virTypedParamsFree params nparams h =
     (case params of
        None \<Rightarrow> Some h
      | Some arr \<Rightarrow>
          if length arr < size_t_of_int nparams then None
          else (case virTypedParamsClear (take (size_t_of_int nparams) arr) h of
                  None \<Rightarrow> None
                | Some h' \<Rightarrow> Some (h' - {#Buf_params (length arr)#})))"

section \<open>\<^verbatim>\<open>setPyVirTypedParameter\<close>: host dictionary to native array, against a schema\<close>

text \<open>
  The search of lines 188 to 191 for the schema element named \<open>keystr\<close>, \<open>n\<close>
  elements still to look at: \<open>Some None\<close> is \<^verbatim>\<open>i == nparams\<close>, \<open>None\<close> a read
  past the end of the array.
\<close>

fun find_param :: "nat \<Rightarrow> virTypedParameter list \<Rightarrow> string \<Rightarrow> virTypedParameter option option" where
  "find_param 0 params keystr = Some None"
| "find_param (Suc n) [] keystr = None"
| "find_param (Suc n) (p # params) keystr =
     (if p_field p = keystr then Some (Some p) else find_param n params keystr)"

text \<open>An element of the array \<^verbatim>\<open>VIR_ALLOC_N\<close> returns: all bytes zero.\<close>

definition zero_param :: virTypedParameter where
  "zero_param = \<lparr>p_field = [], p_type = 0, p_value = V_s None\<rparr>"

text \<open>
  What a conversion of lines 204 to 255 does with \<^verbatim>\<open>temp\<close>: the value is stored, or
  the failure leaves for \<^verbatim>\<open>cleanup\<close> with \<^verbatim>\<open>temp\<close> as it is.
\<close>

definition store_value ::
  "'a outcome \<Rightarrow> ('a \<Rightarrow> value_union) \<Rightarrow> virTypedParameter \<Rightarrow> unit outcome \<times> virTypedParameter" where
  "store_value r member temp =
     (case r of
        Return v \<Rightarrow> (Return (), temp\<lparr>p_value := member v\<rparr>)
      | Raise e m \<Rightarrow> (Raise e m, temp)
      | Undefined \<Rightarrow> (Undefined, temp))"

text \<open>
  The body of the loop of lines 181 to 258 for one entry of the dictionary, writing
  through \<^verbatim>\<open>temp\<close>. \<^verbatim>\<open>keystr\<close> is a copy, freed on lines 196 and 202 on both ways
  out; the copy of a string value stays with the array.
\<close>

definition setPyVirTypedParameter_entry ::
  "(int \<Rightarrow> double option) \<Rightarrow> virTypedParameter list \<Rightarrow> int \<Rightarrow> PyObject \<Rightarrow> PyObject \<Rightarrow>
   virTypedParameter \<Rightarrow> heap \<Rightarrow> unit outcome \<times> virTypedParameter \<times> heap" where
  \<open>setPyVirTypedParameter_entry to_double params nparams key val temp h =
     (case libvirt_charPtrUnwrap key of
        Raise e m \<Rightarrow> (Raise e m, temp, h)
      | Undefined \<Rightarrow> (Undefined, temp, h)
      | Return keystr \<Rightarrow>
         (let h1 = add_mset (Buf_str keystr) h in
          case find_param (size_t_of_int nparams) params keystr of
            None \<Rightarrow> (Undefined, temp, h1)
          | Some None \<Rightarrow>
              (Raise LookupError (''Attribute name "'' @ keystr @ ''" could not be recognized''),
               temp, h1 - {#Buf_str keystr#})
          | Some (Some p) \<Rightarrow>
              (let temp1 = temp\<lparr>p_field := take (VIR_TYPED_PARAM_FIELD_LENGTH - 1) keystr,
                                p_type := p_type p\<rparr>;
                   h2 = h1 - {#Buf_str keystr#}
               in
               if p_type p = VIR_TYPED_PARAM_INT then
                 (case store_value (libvirt_intUnwrap val) V_i temp1 of (r, t) \<Rightarrow> (r, t, h2))
               else if p_type p = VIR_TYPED_PARAM_UINT then
                 (case store_value (libvirt_uintUnwrap val) V_ui temp1 of (r, t) \<Rightarrow> (r, t, h2))
               else if p_type p = VIR_TYPED_PARAM_LLONG then
                 (case store_value (libvirt_longlongUnwrap val) V_l temp1 of (r, t) \<Rightarrow> (r, t, h2))
               else if p_type p = VIR_TYPED_PARAM_ULLONG then
                 (case store_value (libvirt_ulonglongUnwrap val) V_ul temp1 of (r, t) \<Rightarrow> (r, t, h2))
               else if p_type p = VIR_TYPED_PARAM_DOUBLE then
                 (case store_value (libvirt_doubleUnwrap to_double val) V_d temp1 of
                    (r, t) \<Rightarrow> (r, t, h2))
               else if p_type p = VIR_TYPED_PARAM_BOOLEAN then
                 (case store_value (libvirt_boolUnwrap val) (\<lambda>b. V_b (if b then 1 else 0)) temp1 of
                    (r, t) \<Rightarrow> (r, t, h2))
               else if p_type p = VIR_TYPED_PARAM_STRING then
                 (case libvirt_charPtrUnwrap val of
                    Return string_val \<Rightarrow>
                      (Return (), temp1\<lparr>p_value := V_s (Some string_val)\<rparr>,
                       add_mset (Buf_str string_val) h2)
                  | Raise e m \<Rightarrow> (Raise e m, temp1, h2)
                  | Undefined \<Rightarrow> (Undefined, temp1, h2))
               else
                 (Raise LookupError (''Type value "'' @ show_int (p_type p) @ ''" not recognized''),
                  temp1, h2))))\<close>

text \<open>
  The loop: \<open>filled\<close> are the elements of \<^verbatim>\<open>ret\<close> before \<^verbatim>\<open>temp\<close>, \<open>rest\<close>
  those from \<^verbatim>\<open>temp\<close> on. A failure goes to \<^verbatim>\<open>cleanup\<close>, line 262, which frees the
  whole of \<^verbatim>\<open>ret\<close> with the count \<^verbatim>\<open>size\<close>, here \<open>sz\<close>.
\<close>

fun setPyVirTypedParameter_loop ::
  "(int \<Rightarrow> double option) \<Rightarrow> virTypedParameter list \<Rightarrow> int \<Rightarrow> int \<Rightarrow> (PyObject \<times> PyObject) list \<Rightarrow>
   virTypedParameter list \<Rightarrow> virTypedParameter list \<Rightarrow> heap \<Rightarrow> virTypedParameter list outcome \<times> heap" where
  "setPyVirTypedParameter_loop to_double params nparams sz [] filled rest h = (Return (filled @ rest), h)"
| "setPyVirTypedParameter_loop to_double params nparams sz ((key, val) # items) filled [] h = (Undefined, h)"
| "setPyVirTypedParameter_loop to_double params nparams sz ((key, val) # items) filled (temp # rest) h =
     (case setPyVirTypedParameter_entry to_double params nparams key val temp h of
        (Return u, temp', h') \<Rightarrow>
          setPyVirTypedParameter_loop to_double params nparams sz items (filled @ [temp']) rest h'
      | (Raise e m, temp', h') \<Rightarrow>
          (case virTypedParamsFree (Some (filled @ temp' # rest)) sz h' of
             None \<Rightarrow> (Undefined, h')
           | Some h'' \<Rightarrow> (Raise e m, h''))
      | (Undefined, temp', h') \<Rightarrow> (Undefined, h'))"

definition setPyVirTypedParameter ::
  "(int \<Rightarrow> double option) \<Rightarrow> PyObject \<Rightarrow> virTypedParameter list \<Rightarrow> int \<Rightarrow> heap \<Rightarrow>
   virTypedParameter list outcome \<times> heap" where
  "setPyVirTypedParameter to_double info params nparams h =
     (case info of
        PyDict items \<Rightarrow>
          if length items = 0 then (Raise LookupError ''Dictionary must not be empty'', h)
          else setPyVirTypedParameter_loop to_double params nparams (int (length items)) items []
                 (replicate (length items) zero_param) (add_mset (Buf_params (length items)) h)
      | _ \<Rightarrow> (Raise SystemError ''bad argument to internal function'', h))"

section \<open>Ownership of strings\<close>

text \<open>
  An element is safe to clear when, being of string kind, it holds the string member;
  the buffer it then owns is the string it points to.
\<close>

definition wf_entry :: "virTypedParameter \<Rightarrow> bool" where
  "wf_entry t = (p_type t = VIR_TYPED_PARAM_STRING \<longrightarrow> value_s (p_value t) \<noteq> None)"

definition owned :: "virTypedParameter \<Rightarrow> heap" where
  "owned t = (if p_type t = VIR_TYPED_PARAM_STRING then
       (case p_value t of V_s (Some s) \<Rightarrow> {#Buf_str s#} | _ \<Rightarrow> {#}) else {#})"

text \<open>The exception a failure sets; none is set by a call that returns a value.\<close>

definition raised :: "'a outcome \<Rightarrow> (PyExc \<times> string) option" where
  "raised r = (case r of Raise e m \<Rightarrow> Some (e, m) | _ \<Rightarrow> None)"

section \<open>Setting scheduler parameters\<close>

text \<open>
  What the native library answers to the calls of one invocation: the scheduler type and
  the number of parameters (\<open>None\<close> when \<^verbatim>\<open>virDomainGetSchedulerType\<close> returns
  \<^verbatim>\<open>NULL\<close>), the current parameters (\<open>None\<close> when the get call fails) and the
  return value of the set call. The get call fills at most as many elements as it is
  given room for and sets \<^verbatim>\<open>nparams\<close> to the number filled; the strings of the
  elements it fills are allocated by the library and belong to the array.
\<close>

record native_domain =
  sched_type :: "(string \<times> int) option"
  sched_params :: "virTypedParameter list option"
  set_retval :: int

text \<open>
  What one invocation did: the value returned to the interpreter, the native heap it
  left, the count reported by \<^verbatim>\<open>virDomainGetSchedulerType\<close> when that call was made
  and answered, the array and count handed to the native set call when it was made, and
  the array and count of each \<^verbatim>\<open>virTypedParamsFree\<close>, in order.
\<close>

record set_run =
  run_ret :: "PyObject outcome"
  run_heap :: heap
  run_discovered :: "int option"
  run_set_call :: "(virTypedParameter list \<times> int) option"
  run_freed :: "(virTypedParameter list option \<times> int) list"

abbreviation (input) VIR_PY_INT_FAIL :: "PyObject outcome" where
  "VIR_PY_INT_FAIL \<equiv> Return (libvirt_intWrap (- 1))"

abbreviation (input) VIR_PY_INT_SUCCESS :: "PyObject outcome" where
  "VIR_PY_INT_SUCCESS \<equiv> Return (libvirt_intWrap 0)"

text \<open>
  The two calls after the label \<^verbatim>\<open>cleanup\<close>: \<^verbatim>\<open>params\<close> is freed with the count
  \<open>n1\<close>, \<^verbatim>\<open>new_params\<close> with the count \<open>n2\<close>.
\<close>

definition cleanup ::
  "PyObject outcome \<Rightarrow> int option \<Rightarrow> (virTypedParameter list \<times> int) option \<Rightarrow>
   virTypedParameter list option \<Rightarrow> int \<Rightarrow> virTypedParameter list option \<Rightarrow> int \<Rightarrow> heap \<Rightarrow> set_run" where
  "cleanup ret disc call params n1 new_params n2 h =
     (case virTypedParamsFree params n1 h of
        None \<Rightarrow>
          \<lparr>run_ret = Undefined, run_heap = h, run_discovered = disc, run_set_call = call,
           run_freed = [(params, n1)]\<rparr>
      | Some h1 \<Rightarrow>
         (case virTypedParamsFree new_params n2 h1 of
            None \<Rightarrow>
              \<lparr>run_ret = Undefined, run_heap = h1, run_discovered = disc, run_set_call = call,
               run_freed = [(params, n1), (new_params, n2)]\<rparr>
          | Some h2 \<Rightarrow>
              \<lparr>run_ret = ret, run_heap = h2, run_discovered = disc, run_set_call = call,
               run_freed = [(params, n1), (new_params, n2)]\<rparr>))"

text \<open>A return before anything is allocated.\<close>

definition early_return :: "PyObject outcome \<Rightarrow> int option \<Rightarrow> heap \<Rightarrow> set_run" where
  "early_return ret disc h =
     \<lparr>run_ret = ret, run_heap = h, run_discovered = disc, run_set_call = None, run_freed = []\<rparr>"

text \<open>
  The array after the get call: the elements the library filled, then the zeroed rest of
  the \<open>n\<close> allocated ones.
\<close>

definition filled_array :: "nat \<Rightarrow> virTypedParameter list \<Rightarrow> virTypedParameter list" where
  "filled_array n current = take n current @ replicate (n - length current) zero_param"

text \<open>
  \<^verbatim>\<open>libvirt_virDomainSetSchedulerParameters\<close>, lines 956 to 1028. \<^verbatim>\<open>VIR_ALLOC_N\<close>
  fails on a negative count.
\<close>

definition libvirt_virDomainSetSchedulerParameters ::
  "(int \<Rightarrow> double option) \<Rightarrow> native_domain \<Rightarrow> PyObject list \<Rightarrow> heap \<Rightarrow> set_run" where
  "libvirt_virDomainSetSchedulerParameters to_double domain args h =
     (case args of
        [pyobj_domain, info] \<Rightarrow>
          (case info of
             PyDict items \<Rightarrow>
               if length items = 0 then
                 early_return (Raise LookupError ''Need non-empty dictionary to set attributes'') None h
               else
                 (case sched_type domain of
                    None \<Rightarrow> early_return VIR_PY_INT_FAIL None h
                  | Some (c_retval, nparams) \<Rightarrow>
                      if nparams = 0 then
                        early_return (Raise LookupError ''Domain has no settable attributes'') (Some nparams) h
                      else if nparams < 0 then
                        early_return (Raise MemoryError []) (Some nparams) h
                      else
                        (let h1 = add_mset (Buf_params (nat nparams)) h in
                         case sched_params domain of
                           None \<Rightarrow>
                             cleanup VIR_PY_INT_FAIL (Some nparams) None
                               (Some (replicate (nat nparams) zero_param)) nparams None (int (length items)) h1
                         | Some current \<Rightarrow>
                            (let params = filled_array (nat nparams) current;
                                 nparams' = int (length (take (nat nparams) current));
                                 h2 = h1 + sum_list (map owned (take (nat nparams) current))
                             in
                             case setPyVirTypedParameter to_double info params nparams' h2 of
                               (Return new_params, h3) \<Rightarrow>
                                 cleanup
                                   (if set_retval domain < 0 then VIR_PY_INT_FAIL else VIR_PY_INT_SUCCESS)
                                   (Some nparams) (Some (new_params, int (length items)))
                                   (Some params) nparams' (Some new_params) (int (length items)) h3
                             | (Raise e m, h3) \<Rightarrow>
                                 cleanup (Raise e m) (Some nparams) None
                                   (Some params) nparams' None (int (length items)) h3
                             | (Undefined, h3) \<Rightarrow>
                                 \<lparr>run_ret = Undefined, run_heap = h3, run_discovered = Some nparams,
                                  run_set_call = None, run_freed = []\<rparr>)))
           | _ \<Rightarrow> early_return (Raise SystemError ''bad argument to internal function'') None h)
      | _ \<Rightarrow> early_return (Raise TypeError ''function takes exactly 2 arguments'') None h)"

text \<open>
  \<^verbatim>\<open>libvirt_virDomainSetSchedulerParametersFlags\<close>, lines 1030 to 1104: the same steps
  with a third argument, the flags, handed on to the native calls. Line 1102 frees
  \<^verbatim>\<open>new_params\<close> with the count \<^verbatim>\<open>nparams\<close>.
\<close>

definition libvirt_virDomainSetSchedulerParametersFlags ::
  "(int \<Rightarrow> double option) \<Rightarrow> native_domain \<Rightarrow> PyObject list \<Rightarrow> heap \<Rightarrow> set_run" where
  "libvirt_virDomainSetSchedulerParametersFlags to_double domain args h =
     (case args of
        [pyobj_domain, info, flags] \<Rightarrow>
          (case as_long flags of
             None \<Rightarrow> early_return (Raise TypeError ''an integer is required'') None h
           | Some fl \<Rightarrow>
          (case info of
             PyDict items \<Rightarrow>
               if length items = 0 then
                 early_return (Raise LookupError ''Need non-empty dictionary to set attributes'') None h
               else
                 (case sched_type domain of
                    None \<Rightarrow> early_return VIR_PY_INT_FAIL None h
                  | Some (c_retval, nparams) \<Rightarrow>
                      if nparams = 0 then
                        early_return (Raise LookupError ''Domain has no settable attributes'') (Some nparams) h
                      else if nparams < 0 then
                        early_return (Raise MemoryError []) (Some nparams) h
                      else
                        (let h1 = add_mset (Buf_params (nat nparams)) h in
                         case sched_params domain of
                           None \<Rightarrow>
                             cleanup VIR_PY_INT_FAIL (Some nparams) None
                               (Some (replicate (nat nparams) zero_param)) nparams None nparams h1
                         | Some current \<Rightarrow>
                            (let params = filled_array (nat nparams) current;
                                 nparams' = int (length (take (nat nparams) current));
                                 h2 = h1 + sum_list (map owned (take (nat nparams) current))
                             in
                             case setPyVirTypedParameter to_double info params nparams' h2 of
                               (Return new_params, h3) \<Rightarrow>
                                 cleanup
                                   (if set_retval domain < 0 then VIR_PY_INT_FAIL else VIR_PY_INT_SUCCESS)
                                   (Some nparams) (Some (new_params, int (length items)))
                                   (Some params) nparams' (Some new_params) nparams' h3
                             | (Raise e m, h3) \<Rightarrow>
                                 cleanup (Raise e m) (Some nparams) None
                                   (Some params) nparams' None nparams' h3
                             | (Undefined, h3) \<Rightarrow>
                                 \<lparr>run_ret = Undefined, run_heap = h3, run_discovered = Some nparams,
                                  run_set_call = None, run_freed = []\<rparr>)))
           | _ \<Rightarrow> early_return (Raise SystemError ''bad argument to internal function'') None h))
      | _ \<Rightarrow> early_return (Raise TypeError ''function takes exactly 3 arguments'') None h)"

section \<open>\<^verbatim>\<open>virPyDictToTypedParamOne\<close>: one entry, its kind inferred\<close>

text \<open>
  \<^verbatim>\<open>virTypedParamsAddInt\<close> and its six siblings of the native library, from their
  documentation: one element of the given kind is appended to the growable array; the
  call fails, setting no Python exception, when the name does not fit the field.
\<close>

definition virTypedParamsAdd ::
  "virTypedParameter list \<Rightarrow> string \<Rightarrow> int \<Rightarrow> value_union \<Rightarrow> virTypedParameter list option" where
  "virTypedParamsAdd params name kind v =
     (if length name < VIR_TYPED_PARAM_FIELD_LENGTH
      then Some (params @ [\<lparr>p_field = name, p_type = kind, p_value = v\<rparr>])
      else None)"

text \<open>The search of lines 293 to 298 through the hints; \<open>- 1\<close> when no name matches.\<close>

fun find_hint :: "(string \<times> int) list \<Rightarrow> string \<Rightarrow> int" where
  "find_hint [] keystr = - 1"
| "find_hint ((name, kind) # hints) keystr = (if name = keystr then kind else find_hint hints keystr)"

subsection \<open>The error indicator of the interpreter\<close>

text \<open>
  The exception that is set, if one is: what \<^verbatim>\<open>PyErr_Occurred\<close> tests. A function of
  the interpreter that fails sets it; none of the functions below clears it.
\<close>

type_synonym error_indicator = "(PyExc \<times> string) option"

definition PyErr_Occurred :: "error_indicator \<Rightarrow> bool" where
  "PyErr_Occurred err = (err \<noteq> None)"

text \<open>A failure that sets its own exception, replacing one that was set before.\<close>

definition PyErr_SetString :: "PyExc \<Rightarrow> string \<Rightarrow> 'a outcome \<times> error_indicator" where
  "PyErr_SetString e m = (Raise e m, Some (e, m))"

text \<open>
  A failure reported for an exception that was set before the call: the function
  returns \<open>- 1\<close> and the indicator stays as it was.
\<close>

definition stale_failure :: "error_indicator \<Rightarrow> 'a outcome \<times> error_indicator" where
  "stale_failure err = (case err of Some (e, m) \<Rightarrow> (Raise e m, err) | None \<Rightarrow> (Undefined, err))"

text \<open>
  The interpreter's \<^verbatim>\<open>PyLong_AsUnsignedLongLong\<close> on an integer object: its value,
  or \<^verbatim>\<open>(unsigned long long) -1\<close> with an overflow error set, for a negative integer
  and for one of \<open>2 ^ 64\<close> or more.
\<close>

definition PyLong_AsUnsignedLongLong :: "int \<Rightarrow> error_indicator \<Rightarrow> 64 word \<times> error_indicator" where
  "PyLong_AsUnsignedLongLong n err =
     (if n < 0 then (- 1, Some (OverflowError, ''can't convert negative int to unsigned''))
      else if 2 ^ 64 \<le> n then (- 1, Some (OverflowError, ''int too big to convert''))
      else (word_of_int n, err))"

text \<open>
  Modelled from the spec: the unwrappers of \<^verbatim>\<open>typewrappers.c\<close>, which is not part of
  the sources at hand, as they behave when an exception may already be set at the call.
  "A conversion failure (wrong host type, overflow, not-a-string-when-string-expected)
  aborts the whole encode". Each numeric unwrapper tells a failed conversion of the
  interpreter by its result \<open>- 1\<close> together with \<^verbatim>\<open>PyErr_Occurred()\<close>, so the value
  \<open>- 1\<close> converted while an exception is set is taken for a failure. With no exception
  set they are the unwrappers above (lemma \<open>unwrap_err_clear\<close>).
\<close>

text \<open>Modelled from the spec: \<^verbatim>\<open>libvirt_intUnwrap\<close> of \<^verbatim>\<open>typewrappers.c\<close>, an exception possibly set at the call.\<close>

definition libvirt_intUnwrap_err :: "PyObject \<Rightarrow> error_indicator \<Rightarrow> 32 word outcome \<times> error_indicator" where
  "libvirt_intUnwrap_err obj err =
     (case as_long obj of
        None \<Rightarrow> PyErr_SetString TypeError ''an integer is required''
      | Some long_val \<Rightarrow>
          if long_val < - (2 ^ 63) \<or> 2 ^ 63 \<le> long_val
          then PyErr_SetString OverflowError ''Python int too large to convert to C long''
          else if long_val = - 1 \<and> PyErr_Occurred err then stale_failure err
          else if - (2 ^ 31) \<le> long_val \<and> long_val < 2 ^ 31 then (Return (word_of_int long_val), err)
          else PyErr_SetString OverflowError ''Python int too large to convert to C int'')"

text \<open>Modelled from the spec: \<^verbatim>\<open>libvirt_uintUnwrap\<close> of \<^verbatim>\<open>typewrappers.c\<close>, an exception possibly set at the call.\<close>

definition libvirt_uintUnwrap_err :: "PyObject \<Rightarrow> error_indicator \<Rightarrow> 32 word outcome \<times> error_indicator" where
  "libvirt_uintUnwrap_err obj err =
     (case as_long obj of
        None \<Rightarrow> PyErr_SetString TypeError ''an integer is required''
      | Some long_val \<Rightarrow>
          if long_val < - (2 ^ 63) \<or> 2 ^ 63 \<le> long_val
          then PyErr_SetString OverflowError ''Python int too large to convert to C long''
          else if long_val = - 1 \<and> PyErr_Occurred err then stale_failure err
          else if 0 \<le> long_val \<and> long_val < 2 ^ 32 then (Return (word_of_int long_val), err)
          else PyErr_SetString OverflowError ''Python int too large to convert to C unsigned int'')"

text \<open>Modelled from the spec: \<^verbatim>\<open>libvirt_longlongUnwrap\<close> of \<^verbatim>\<open>typewrappers.c\<close>, an exception possibly set at the call.\<close>

definition libvirt_longlongUnwrap_err :: "PyObject \<Rightarrow> error_indicator \<Rightarrow> 64 word outcome \<times> error_indicator" where
  "libvirt_longlongUnwrap_err obj err =
     (case as_long obj of
        None \<Rightarrow> PyErr_SetString TypeError ''an integer is required''
      | Some llong_val \<Rightarrow>
          if llong_val < - (2 ^ 63) \<or> 2 ^ 63 \<le> llong_val
          then PyErr_SetString OverflowError ''Python int too large to convert to C long long''
          else if llong_val = - 1 \<and> PyErr_Occurred err then stale_failure err
          else (Return (word_of_int llong_val), err))"

text \<open>Modelled from the spec: \<^verbatim>\<open>libvirt_ulonglongUnwrap\<close> of \<^verbatim>\<open>typewrappers.c\<close>, an exception possibly set at the call.\<close>

definition libvirt_ulonglongUnwrap_err :: "PyObject \<Rightarrow> error_indicator \<Rightarrow> 64 word outcome \<times> error_indicator" where
  "libvirt_ulonglongUnwrap_err obj err =
     (case as_long obj of
        None \<Rightarrow> PyErr_SetString TypeError ''an integer is required''
      | Some ullong_val \<Rightarrow>
          if ullong_val < 0
          then PyErr_SetString OverflowError ''can't convert negative int to unsigned''
          else if 2 ^ 64 \<le> ullong_val then PyErr_SetString OverflowError ''int too big to convert''
          else if ullong_val = 2 ^ 64 - 1 \<and> PyErr_Occurred err then stale_failure err
          else (Return (word_of_int ullong_val), err))"

text \<open>
  Modelled from the spec: \<^verbatim>\<open>libvirt_doubleUnwrap\<close> of \<^verbatim>\<open>typewrappers.c\<close>, an
  exception possibly set at the call. The bit pattern is that of the double \<open>- 1\<close>.
\<close>

definition libvirt_doubleUnwrap_err ::
  "(int \<Rightarrow> double option) \<Rightarrow> PyObject \<Rightarrow> error_indicator \<Rightarrow> double outcome \<times> error_indicator" where
  "libvirt_doubleUnwrap_err to_double obj err =
     (case libvirt_doubleUnwrap to_double obj of
        Return d \<Rightarrow>
          if d = 0xBFF0000000000000 \<and> PyErr_Occurred err then stale_failure err else (Return d, err)
      | Raise e m \<Rightarrow> PyErr_SetString e m
      | Undefined \<Rightarrow> (Undefined, err))"

text \<open>Modelled from the spec: \<^verbatim>\<open>libvirt_boolUnwrap\<close> of \<^verbatim>\<open>typewrappers.c\<close>, an exception possibly set at the call.\<close>

definition libvirt_boolUnwrap_err :: "PyObject \<Rightarrow> error_indicator \<Rightarrow> bool outcome \<times> error_indicator" where
  "libvirt_boolUnwrap_err obj err = (Return (PyObject_IsTrue obj), err)"

text \<open>Modelled from the spec: \<^verbatim>\<open>libvirt_charPtrUnwrap\<close> of \<^verbatim>\<open>typewrappers.c\<close>, an exception possibly set at the call.\<close>

definition libvirt_charPtrUnwrap_err :: "PyObject \<Rightarrow> error_indicator \<Rightarrow> string outcome \<times> error_indicator" where
  "libvirt_charPtrUnwrap_err obj err =
     (case obj of PyStr s \<Rightarrow> (Return s, err) | _ \<Rightarrow> PyErr_SetString TypeError ''expected a string'')"

subsection \<open>The function\<close>

text \<open>
  The value of \<^verbatim>\<open>type\<close> after lines 290 to 321, and the error indicator then. The
  probe of line 306 sets an overflow error when the integer does not convert, and
  nothing clears it: the test of line 307 reads it, and so do the unwrappers called
  after it. \<open>err\<close> is the indicator at the call of the function.
\<close>

definition virPyDictToTypedParamOne_type ::
  "(string \<times> int) list \<Rightarrow> string \<Rightarrow> PyObject \<Rightarrow> error_indicator \<Rightarrow> int \<times> error_indicator" where
  "virPyDictToTypedParamOne_type hints keystr val err =
     (let type = find_hint hints keystr in
      if type = - 1 then
        (case val of
           PyStr s \<Rightarrow> (VIR_TYPED_PARAM_STRING, err)
         | PyBool b \<Rightarrow> (VIR_TYPED_PARAM_BOOLEAN, err)
         | PyLong n \<Rightarrow>
             (case PyLong_AsUnsignedLongLong n err of
                (ull, err1) \<Rightarrow>
                  if ull = - 1 \<and> PyErr_Occurred err1 then (VIR_TYPED_PARAM_LLONG, err1)
                  else (VIR_TYPED_PARAM_ULLONG, err1))
         | PyFloat d \<Rightarrow> (VIR_TYPED_PARAM_DOUBLE, err)
         | _ \<Rightarrow> (- 1, err))
      else (type, err))"

text \<open>
  What the function leaves: \<^verbatim>\<open>rv = 0\<close> and the array, or \<^verbatim>\<open>rv = -1\<close>; with either,
  the error indicator on return.
\<close>

datatype param_one =
    Rv_ok "virTypedParameter list" error_indicator
  | Rv_fail error_indicator
  | Rv_undefined

definition add_converted ::
  "'a outcome \<times> error_indicator \<Rightarrow> ('a \<Rightarrow> virTypedParameter list option) \<Rightarrow> param_one" where
  "add_converted r add =
     (case r of
        (Return val, err) \<Rightarrow> (case add val of Some params \<Rightarrow> Rv_ok params err | None \<Rightarrow> Rv_fail err)
      | (Raise e m, err) \<Rightarrow> Rv_fail err
      | (Undefined, err) \<Rightarrow> Rv_undefined)"

text \<open>
  Lines 281 to 398. A kind code that is none of the seven (a hint could give one) matches
  no case of the \<^verbatim>\<open>switch\<close>: nothing is added and \<^verbatim>\<open>rv\<close> is 0.
\<close>

definition virPyDictToTypedParamOne ::
  "(int \<Rightarrow> double option) \<Rightarrow> virTypedParameter list \<Rightarrow> (string \<times> int) list \<Rightarrow> string \<Rightarrow> PyObject \<Rightarrow>
   error_indicator \<Rightarrow> param_one" where
  \<open>virPyDictToTypedParamOne to_double params hints keystr val err =
     (case virPyDictToTypedParamOne_type hints keystr val err of
        (type, err1) \<Rightarrow>
          if type = - 1 then Rv_fail (Some (TypeError, ''Unknown type of "'' @ keystr @ ''" field''))
          else if type = VIR_TYPED_PARAM_INT then
            add_converted (libvirt_intUnwrap_err val err1)
              (\<lambda>v. virTypedParamsAdd params keystr VIR_TYPED_PARAM_INT (V_i v))
          else if type = VIR_TYPED_PARAM_UINT then
            add_converted (libvirt_uintUnwrap_err val err1)
              (\<lambda>v. virTypedParamsAdd params keystr VIR_TYPED_PARAM_UINT (V_ui v))
          else if type = VIR_TYPED_PARAM_LLONG then
            add_converted (libvirt_longlongUnwrap_err val err1)
              (\<lambda>v. virTypedParamsAdd params keystr VIR_TYPED_PARAM_LLONG (V_l v))
          else if type = VIR_TYPED_PARAM_ULLONG then
            add_converted (libvirt_ulonglongUnwrap_err val err1)
              (\<lambda>v. virTypedParamsAdd params keystr VIR_TYPED_PARAM_ULLONG (V_ul v))
          else if type = VIR_TYPED_PARAM_DOUBLE then
            add_converted (libvirt_doubleUnwrap_err to_double val err1)
              (\<lambda>v. virTypedParamsAdd params keystr VIR_TYPED_PARAM_DOUBLE (V_d v))
          else if type = VIR_TYPED_PARAM_BOOLEAN then
            add_converted (libvirt_boolUnwrap_err val err1)
              (\<lambda>v. virTypedParamsAdd params keystr VIR_TYPED_PARAM_BOOLEAN (V_b (if v then 1 else 0)))
          else if type = VIR_TYPED_PARAM_STRING then
            add_converted (libvirt_charPtrUnwrap_err val err1)
              (\<lambda>v. virTypedParamsAdd params keystr VIR_TYPED_PARAM_STRING (V_s (Some v)))
          else Rv_ok params err1)\<close>

subsection \<open>The precedence as the specification words it\<close>

text \<open>
  A hint that matches the key gives the kind; otherwise a string selects String, a
  boolean Bool, an integer Int64 when negative and UInt64 otherwise, a float Double; any
  other host type selects nothing.
\<close>

definition claimed_kind :: "(string \<times> int) list \<Rightarrow> string \<Rightarrow> PyObject \<Rightarrow> int option" where
  "claimed_kind hints keystr val =
     (case map_of hints keystr of
        Some kind \<Rightarrow> Some kind
      | None \<Rightarrow>
         (case val of
            PyStr s \<Rightarrow> Some VIR_TYPED_PARAM_STRING
          | PyBool b \<Rightarrow> Some VIR_TYPED_PARAM_BOOLEAN
          | PyLong n \<Rightarrow> Some (if n < 0 then VIR_TYPED_PARAM_LLONG else VIR_TYPED_PARAM_ULLONG)
          | PyFloat d \<Rightarrow> Some VIR_TYPED_PARAM_DOUBLE
          | _ \<Rightarrow> None))"

text \<open>The host value converted to the payload of a kind.\<close>

definition convert_to_kind :: "(int \<Rightarrow> double option) \<Rightarrow> int \<Rightarrow> PyObject \<Rightarrow> value_union outcome" where
  "convert_to_kind to_double kind val =
     (if kind = VIR_TYPED_PARAM_INT then map_outcome V_i (libvirt_intUnwrap val)
      else if kind = VIR_TYPED_PARAM_UINT then map_outcome V_ui (libvirt_uintUnwrap val)
      else if kind = VIR_TYPED_PARAM_LLONG then map_outcome V_l (libvirt_longlongUnwrap val)
      else if kind = VIR_TYPED_PARAM_ULLONG then map_outcome V_ul (libvirt_ulonglongUnwrap val)
      else if kind = VIR_TYPED_PARAM_DOUBLE then map_outcome V_d (libvirt_doubleUnwrap to_double val)
      else if kind = VIR_TYPED_PARAM_BOOLEAN
        then map_outcome (\<lambda>b. V_b (if b then 1 else 0)) (libvirt_boolUnwrap val)
      else map_outcome (\<lambda>s. V_s (Some s)) (libvirt_charPtrUnwrap val))"

text \<open>
  What the claimed precedence makes of an entry: a type error when no kind is selected,
  else the entry converted to the selected kind and appended under the key; no
  exception is set unless the entry fails.
\<close>

definition claimed_result ::
  "(int \<Rightarrow> double option) \<Rightarrow> virTypedParameter list \<Rightarrow> (string \<times> int) list \<Rightarrow> string \<Rightarrow> PyObject \<Rightarrow> param_one" where
  \<open>claimed_result to_double params hints keystr val =
     (case claimed_kind hints keystr val of
        None \<Rightarrow> Rv_fail (Some (TypeError, ''Unknown type of "'' @ keystr @ ''" field''))
      | Some kind \<Rightarrow>
          add_converted (convert_to_kind to_double kind val, raised (convert_to_kind to_double kind val))
            (virTypedParamsAdd params keystr kind))\<close>

text \<open>Equal results, the message text of a failed conversion apart.\<close>

definition same_but_message :: "param_one \<Rightarrow> param_one \<Rightarrow> bool" where
  "same_but_message a b =
     (case a of
        Rv_fail (Some (e, m)) \<Rightarrow> (case b of Rv_fail (Some (e', m')) \<Rightarrow> e = e' | _ \<Rightarrow> False)
      | _ \<Rightarrow> a = b)"

definition valid_hints :: "(string \<times> int) list \<Rightarrow> bool" where
  "valid_hints hints =
     list_all (\<lambda>(name, kind). VIR_TYPED_PARAM_INT \<le> kind \<and> kind \<le> VIR_TYPED_PARAM_STRING) hints"

text \<open>An entry whose kind is inferred from a negative integer.\<close>

definition negative_unhinted :: "(string \<times> int) list \<Rightarrow> string \<Rightarrow> PyObject \<Rightarrow> bool" where
  "negative_unhinted hints keystr val =
     (map_of hints keystr = None \<and> (case val of PyLong n \<Rightarrow> n < 0 | _ \<Rightarrow> False))"

section \<open>The event loop implemented in the host\<close>

text \<open>
  The six callables and their printed names are global variables of the file. A host
  object is known here by its address; \<open>None\<close> is \<^verbatim>\<open>NULL\<close>. \<open>refcnt\<close> is the
  reference count the interpreter keeps for each object, and \<open>native_registrations\<close>
  counts the calls of the native \<^verbatim>\<open>virEventRegisterImpl\<close>.
\<close>

record event_impl =
  addHandleObj :: "nat option"
  addHandleName :: "string option"
  updateHandleObj :: "nat option"
  updateHandleName :: "string option"
  removeHandleObj :: "nat option"
  removeHandleName :: "string option"
  addTimeoutObj :: "nat option"
  addTimeoutName :: "string option"
  updateTimeoutObj :: "nat option"
  updateTimeoutName :: "string option"
  removeTimeoutObj :: "nat option"
  removeTimeoutName :: "string option"
  refcnt :: "nat \<Rightarrow> int"
  native_registrations :: nat







subsection \<open>Removing a handle or a timeout\<close>

text \<open>
  Lines 42 to 52: \<^verbatim>\<open>DEBUG_ERROR\<close> is defined inside \<^verbatim>\<open>#if 0\<close>, so \<^verbatim>\<open>DEBUG\<close> expands
  to an empty statement.
\<close>

definition DEBUG_ERROR :: bool where
  "DEBUG_ERROR = False"

definition DEBUG :: "string \<Rightarrow> string list \<Rightarrow> string list" where
  "DEBUG msg out = (if DEBUG_ERROR then out @ [msg] else out)"

text \<open>\<^verbatim>\<open>NAME(fn)\<close>, line 5507.\<close>

definition NAME :: "string option \<Rightarrow> string \<Rightarrow> string" where
  "NAME fnName fn = (case fnName of Some s \<Rightarrow> s | None \<Rightarrow> fn)"

text \<open>
  Modelled from the spec: \<^verbatim>\<open>PyvirFreeCallback_Get\<close> and \<^verbatim>\<open>PyvirVoidPtr_Get\<close> are
  macros of \<^verbatim>\<open>typewrappers.h\<close>, which is not part of the sources at hand. "The wrapped
  release function (if any)" and "the wrapped opaque pointer": the pointer a capsule
  wraps, \<^verbatim>\<open>NULL\<close> (here 0) for \<^verbatim>\<open>None\<close>; applied to any other object the macro reads
  memory that is not a capsule's, which is undefined (\<open>None\<close>).
\<close>

definition PyvirFreeCallback_Get :: "PyObject \<Rightarrow> nat option" where
  "PyvirFreeCallback_Get v = (case v of PyNone \<Rightarrow> Some 0 | PyCapsule a \<Rightarrow> Some a | _ \<Rightarrow> None)"

text \<open>Modelled from the spec: \<^verbatim>\<open>PyvirVoidPtr_Get\<close> of \<^verbatim>\<open>typewrappers.h\<close>, as above.\<close>

definition PyvirVoidPtr_Get :: "PyObject \<Rightarrow> nat option" where
  "PyvirVoidPtr_Get v = (case v of PyNone \<Rightarrow> Some 0 | PyCapsule a \<Rightarrow> Some a | _ \<Rightarrow> None)"

text \<open>
  What one removal did: the value returned to the native library (\<open>None\<close> when the
  behaviour is undefined), the calls made through the release function pointer (its
  address and its argument), the exceptions \<^verbatim>\<open>PyErr_Print\<close> wrote to the error stream,
  and the lines \<^verbatim>\<open>DEBUG\<close> wrote.
\<close>

record remove_run =
  rm_retval :: "int option"
  rm_released :: "(nat \<times> nat) list"
  rm_printed :: "(PyExc \<times> string) list"
  rm_debug :: "string list"

text \<open>
  \<^verbatim>\<open>libvirt_virEventRemoveHandleFunc\<close>, lines 5592 to 5630. \<open>removeHandle\<close> is the
  registered host callable, applied to the tuple of the wrapped watch number.
\<close>

definition libvirt_virEventRemoveHandleFunc ::
  "event_impl \<Rightarrow> (PyObject \<Rightarrow> PyObject outcome) \<Rightarrow> 32 word \<Rightarrow> remove_run" where
  "libvirt_virEventRemoveHandleFunc st removeHandle watch =
     (case removeHandle (PyTuple [libvirt_intWrap watch]) of
        Raise e m \<Rightarrow>
          \<lparr>rm_retval = Some (- 1), rm_released = [], rm_printed = [(e, m)], rm_debug = []\<rparr>
      | Undefined \<Rightarrow> \<lparr>rm_retval = None, rm_released = [], rm_printed = [], rm_debug = []\<rparr>
      | Return result \<Rightarrow>
         (case result of
            PyTuple [r0, opaque, ff] \<Rightarrow>
              (case PyvirFreeCallback_Get ff of
                 None \<Rightarrow> \<lparr>rm_retval = None, rm_released = [], rm_printed = [], rm_debug = []\<rparr>
               | Some cff \<Rightarrow>
                   if cff \<noteq> 0 then
                     (case PyvirVoidPtr_Get opaque of
                        None \<Rightarrow> \<lparr>rm_retval = None, rm_released = [], rm_printed = [], rm_debug = []\<rparr>
                      | Some p \<Rightarrow>
                          \<lparr>rm_retval = Some 0, rm_released = [(cff, p)], rm_printed = [], rm_debug = []\<rparr>)
                   else \<lparr>rm_retval = Some 0, rm_released = [], rm_printed = [], rm_debug = []\<rparr>)
          | _ \<Rightarrow>
              \<lparr>rm_retval = Some (- 1), rm_released = [], rm_printed = [],
               rm_debug = DEBUG (''libvirt_virEventRemoveHandleFunc: '' @
                   NAME (removeHandleName st) ''removeHandle'' @
                   '' must return opaque obj registered with '' @
                   NAME (addHandleName st) ''addHandle'' @ ''to avoid leaking libvirt memory'') []\<rparr>))"

text \<open>\<^verbatim>\<open>libvirt_virEventRemoveTimeoutFunc\<close>, lines 5715 to 5753.\<close>

definition libvirt_virEventRemoveTimeoutFunc ::
  "event_impl \<Rightarrow> (PyObject \<Rightarrow> PyObject outcome) \<Rightarrow> 32 word \<Rightarrow> remove_run" where
  "libvirt_virEventRemoveTimeoutFunc st removeTimeout timer =
     (case removeTimeout (PyTuple [libvirt_intWrap timer]) of
        Raise e m \<Rightarrow>
          \<lparr>rm_retval = Some (- 1), rm_released = [], rm_printed = [(e, m)], rm_debug = []\<rparr>
      | Undefined \<Rightarrow> \<lparr>rm_retval = None, rm_released = [], rm_printed = [], rm_debug = []\<rparr>
      | Return result \<Rightarrow>
         (case result of
            PyTuple [r0, opaque, ff] \<Rightarrow>
              (case PyvirFreeCallback_Get ff of
                 None \<Rightarrow> \<lparr>rm_retval = None, rm_released = [], rm_printed = [], rm_debug = []\<rparr>
               | Some cff \<Rightarrow>
                   if cff \<noteq> 0 then
                     (case PyvirVoidPtr_Get opaque of
                        None \<Rightarrow> \<lparr>rm_retval = None, rm_released = [], rm_printed = [], rm_debug = []\<rparr>
                      | Some p \<Rightarrow>
                          \<lparr>rm_retval = Some 0, rm_released = [(cff, p)], rm_printed = [], rm_debug = []\<rparr>)
                   else \<lparr>rm_retval = Some 0, rm_released = [], rm_printed = [], rm_debug = []\<rparr>)
          | _ \<Rightarrow>
              \<lparr>rm_retval = Some (- 1), rm_released = [], rm_printed = [],
               rm_debug = DEBUG (''libvirt_virEventRemoveTimeoutFunc: '' @
                   NAME (removeTimeoutName st) ''removeTimeout'' @
                   '' must return opaque obj registered with '' @
                   NAME (addTimeoutName st) ''addTimeout'' @ ''to avoid leaking libvirt memory'') []\<rparr>))"

text \<open>What \<^verbatim>\<open>PyTuple_Check\<close> and \<^verbatim>\<open>PyTuple_Size\<close> test on line 5611.\<close>

definition is_3_tuple :: "PyObject \<Rightarrow> bool" where
  "is_3_tuple result = (case result of PyTuple xs \<Rightarrow> length xs = 3 | _ \<Rightarrow> False)"

subsection \<open>The callbacks that dispatch an event to the host\<close>

text \<open>
  What calling a method of an object with given arguments does: the object has no such
  attribute, the method raises, or it returns.
\<close>

datatype method_call = No_attribute | Method_raises PyExc string | Method_returns PyObject

text \<open>
  The interpreter as one invocation of a callback meets it: whether the key
  \<^verbatim>\<open>"conn"\<close>, the domain and the network can be wrapped (they cannot when memory is
  short), and what the call of a method, given by the object, the name of the method
  and the arguments, does.
\<close>

record dispatch_env =
  key_wrap_ok :: bool
  dom_wrap_ok :: bool
  net_wrap_ok :: bool
  call_method :: "PyObject \<Rightarrow> string \<Rightarrow> PyObject list \<Rightarrow> method_call"

text \<open>
  What a callback did: the value returned to the native library, the exceptions
  \<^verbatim>\<open>PyErr_Print\<close> wrote, the error indicator left on return, the net change of the
  native reference count of the domain or network (\<^verbatim>\<open>virDomainRef\<close>,
  \<^verbatim>\<open>virDomainFree\<close>), and the method call that was made, if one was: the object, the
  name of the method and the arguments.
\<close>

record callback_run =
  cb_ret :: int
  cb_printed :: "(PyExc \<times> string) list"
  cb_pending :: error_indicator
  cb_dom_refs :: int
  cb_called :: "(PyObject \<times> string \<times> PyObject list) option"

text \<open>\<^verbatim>\<open>PyDict_GetItem\<close>: \<^verbatim>\<open>NULL\<close>, no exception set, when the key is missing or the
  object is no dictionary.\<close>

definition PyDict_GetItem :: "PyObject \<Rightarrow> PyObject \<Rightarrow> PyObject option" where
  "PyDict_GetItem d key = (case d of PyDict items \<Rightarrow> map_of items key | _ \<Rightarrow> None)"

text \<open>
  An argument of \<^verbatim>\<open>PyObject_CallMethod\<close> by its format character: \<^verbatim>\<open>O\<close> an object,
  \<^verbatim>\<open>i\<close> an \<^verbatim>\<open>int\<close>, \<^verbatim>\<open>L\<close> a \<^verbatim>\<open>long long\<close>, \<^verbatim>\<open>s\<close> a C string, which becomes
  \<^verbatim>\<open>None\<close> when it is \<^verbatim>\<open>NULL\<close>. The strings the native library hands over are
  taken to be text the interpreter can decode.
\<close>

datatype c_arg = Arg_O PyObject | Arg_i "32 word" | Arg_L "64 word" | Arg_s "string option"

definition Py_BuildValue :: "c_arg \<Rightarrow> PyObject" where
  "Py_BuildValue a =
     (case a of
        Arg_O obj \<Rightarrow> obj
      | Arg_i n \<Rightarrow> PyLong (sint n)
      | Arg_L n \<Rightarrow> PyLong (sint n)
      | Arg_s str \<Rightarrow> (case str of None \<Rightarrow> PyNone | Some t \<Rightarrow> PyStr t))"

text \<open>
  \<^verbatim>\<open>PyObject_CallMethod\<close>: the result, \<open>None\<close> for \<^verbatim>\<open>NULL\<close>, and the error indicator
  after the call. On a \<^verbatim>\<open>NULL\<close> object it sets a system error; on an object without
  the attribute, an attribute error.
\<close>

definition PyObject_CallMethod ::
  "dispatch_env \<Rightarrow> PyObject option \<Rightarrow> string \<Rightarrow> c_arg list \<Rightarrow> PyObject option \<times> error_indicator" where
  "PyObject_CallMethod env obj name args =
     (case obj of
        None \<Rightarrow> (None, Some (SystemError, ''null argument to internal routine''))
      | Some proxy \<Rightarrow>
         (case call_method env proxy name (map Py_BuildValue args) of
            No_attribute \<Rightarrow> (None, Some (AttributeError, name))
          | Method_raises e m \<Rightarrow> (None, Some (e, m))
          | Method_returns r \<Rightarrow> (Some r, None)))"

text \<open>
  The label \<^verbatim>\<open>cleanup\<close>, which ends each of the callbacks in the same words (lines
  5411 to 5421, 6060 to 6070 and so on; the tunable callback also drops its dictionary
  there, line 6900): \<^verbatim>\<open>ret\<close> becomes 0 only when \<^verbatim>\<open>pyobj_ret\<close> is not
  \<^verbatim>\<open>NULL\<close>; otherwise \<^verbatim>\<open>PyErr_Print\<close> writes the exception that is set and clears
  the error indicator. \<^verbatim>\<open>DEBUG\<close> is compiled out.
\<close>

definition dispatch_cleanup ::
  "PyObject option \<Rightarrow> error_indicator \<Rightarrow> int \<Rightarrow> (PyObject \<times> string \<times> PyObject list) option \<Rightarrow> callback_run" where
  "dispatch_cleanup pyobj_ret err refs called =
     (case pyobj_ret of
        None \<Rightarrow>
          \<lparr>cb_ret = - 1, cb_printed = (case err of None \<Rightarrow> [] | Some e \<Rightarrow> [e]),
           cb_pending = None, cb_dom_refs = refs, cb_called = called\<rparr>
      | Some r \<Rightarrow>
          \<lparr>cb_ret = 0, cb_printed = [], cb_pending = err, cb_dom_refs = refs, cb_called = called\<rparr>)"

text \<open>
  The statements from "Call the Callback Dispatcher" to the end of a callback: the
  method call, then \<^verbatim>\<open>cleanup\<close>. One reference to the domain has been taken.
\<close>

definition call_dispatcher ::
  "dispatch_env \<Rightarrow> PyObject option \<Rightarrow> string \<Rightarrow> c_arg list \<Rightarrow> callback_run" where
  "call_dispatcher env pyobj_conn name args =
     (case PyObject_CallMethod env pyobj_conn name args of
        (pyobj_ret, err) \<Rightarrow>
          dispatch_cleanup pyobj_ret err 1
            (case pyobj_conn of
               None \<Rightarrow> None
             | Some proxy \<Rightarrow> Some (proxy, name, map Py_BuildValue args)))"

text \<open>
  \<^verbatim>\<open>libvirt_virConnectDomainEventCallback\<close>, lines 5379 to 5422, the callback of
  \<^verbatim>\<open>virConnectDomainEventRegister\<close>: \<^verbatim>\<open>opaque\<close> is the connection proxy itself.
\<close>

definition libvirt_virConnectDomainEventCallback ::
  "dispatch_env \<Rightarrow> nat \<Rightarrow> 32 word \<Rightarrow> 32 word \<Rightarrow> PyObject \<Rightarrow> callback_run" where
  "libvirt_virConnectDomainEventCallback env dom_ptr event detail opaque =
     (let pyobj_conn = Some opaque in
      if \<not> dom_wrap_ok env then dispatch_cleanup None (Some (MemoryError, [])) (1 - 1) None
      else
        call_dispatcher env pyobj_conn ''_dispatchDomainEventCallbacks''
          [Arg_O (PyCapsule dom_ptr), Arg_i event, Arg_i detail])"

text \<open>\<^verbatim>\<open>libvirt_virConnectDomainEventLifecycleCallback\<close>, lines 6020 to 6071.\<close>

definition libvirt_virConnectDomainEventLifecycleCallback ::
  "dispatch_env \<Rightarrow> nat \<Rightarrow> 32 word \<Rightarrow> 32 word \<Rightarrow> PyObject \<Rightarrow> callback_run" where
  "libvirt_virConnectDomainEventLifecycleCallback env dom_ptr event detail pyobj_cbData =
     (if \<not> key_wrap_ok env then dispatch_cleanup None (Some (MemoryError, [])) 0 None
      else
        (let pyobj_conn = PyDict_GetItem pyobj_cbData (libvirt_constcharPtrWrap (Some ''conn'')) in
         if \<not> dom_wrap_ok env then dispatch_cleanup None (Some (MemoryError, [])) (1 - 1) None
         else
           call_dispatcher env pyobj_conn ''_dispatchDomainEventLifecycleCallback''
             [Arg_O (PyCapsule dom_ptr), Arg_i event, Arg_i detail, Arg_O pyobj_cbData]))"

text \<open>\<^verbatim>\<open>libvirt_virConnectDomainEventGenericCallback\<close>, lines 6073 to 6120.\<close>

definition libvirt_virConnectDomainEventGenericCallback ::
  "dispatch_env \<Rightarrow> nat \<Rightarrow> PyObject \<Rightarrow> callback_run" where
  "libvirt_virConnectDomainEventGenericCallback env dom_ptr pyobj_cbData =
     (if \<not> key_wrap_ok env then dispatch_cleanup None (Some (MemoryError, [])) 0 None
      else
        (let pyobj_conn = PyDict_GetItem pyobj_cbData (libvirt_constcharPtrWrap (Some ''conn'')) in
         if \<not> dom_wrap_ok env then dispatch_cleanup None (Some (MemoryError, [])) (1 - 1) None
         else
           call_dispatcher env pyobj_conn ''_dispatchDomainEventGenericCallback''
             [Arg_O (PyCapsule dom_ptr), Arg_O pyobj_cbData]))"

text \<open>\<^verbatim>\<open>libvirt_virConnectDomainEventRTCChangeCallback\<close>, lines 6122 to 6172.\<close>

definition libvirt_virConnectDomainEventRTCChangeCallback ::
  "dispatch_env \<Rightarrow> nat \<Rightarrow> 64 word \<Rightarrow> PyObject \<Rightarrow> callback_run" where
  "libvirt_virConnectDomainEventRTCChangeCallback env dom_ptr utcoffset pyobj_cbData =
     (if \<not> key_wrap_ok env then dispatch_cleanup None (Some (MemoryError, [])) 0 None
      else
        (let pyobj_conn = PyDict_GetItem pyobj_cbData (libvirt_constcharPtrWrap (Some ''conn'')) in
         if \<not> dom_wrap_ok env then dispatch_cleanup None (Some (MemoryError, [])) (1 - 1) None
         else
           call_dispatcher env pyobj_conn ''_dispatchDomainEventRTCChangeCallback''
             [Arg_O (PyCapsule dom_ptr), Arg_L utcoffset, Arg_O pyobj_cbData]))"

text \<open>\<^verbatim>\<open>libvirt_virConnectDomainEventWatchdogCallback\<close>, lines 6174 to 6224.\<close>

definition libvirt_virConnectDomainEventWatchdogCallback ::
  "dispatch_env \<Rightarrow> nat \<Rightarrow> 32 word \<Rightarrow> PyObject \<Rightarrow> callback_run" where
  "libvirt_virConnectDomainEventWatchdogCallback env dom_ptr action pyobj_cbData =
     (if \<not> key_wrap_ok env then dispatch_cleanup None (Some (MemoryError, [])) 0 None
      else
        (let pyobj_conn = PyDict_GetItem pyobj_cbData (libvirt_constcharPtrWrap (Some ''conn'')) in
         if \<not> dom_wrap_ok env then dispatch_cleanup None (Some (MemoryError, [])) (1 - 1) None
         else
           call_dispatcher env pyobj_conn ''_dispatchDomainEventWatchdogCallback''
             [Arg_O (PyCapsule dom_ptr), Arg_i action, Arg_O pyobj_cbData]))"

text \<open>\<^verbatim>\<open>libvirt_virConnectDomainEventIOErrorCallback\<close>, lines 6226 to 6278.\<close>

definition libvirt_virConnectDomainEventIOErrorCallback ::
  "dispatch_env \<Rightarrow> nat \<Rightarrow> string option \<Rightarrow> string option \<Rightarrow> 32 word \<Rightarrow> PyObject \<Rightarrow> callback_run" where
  "libvirt_virConnectDomainEventIOErrorCallback env dom_ptr srcPath devAlias action pyobj_cbData =
     (if \<not> key_wrap_ok env then dispatch_cleanup None (Some (MemoryError, [])) 0 None
      else
        (let pyobj_conn = PyDict_GetItem pyobj_cbData (libvirt_constcharPtrWrap (Some ''conn'')) in
         if \<not> dom_wrap_ok env then dispatch_cleanup None (Some (MemoryError, [])) (1 - 1) None
         else
           call_dispatcher env pyobj_conn ''_dispatchDomainEventIOErrorCallback''
             [Arg_O (PyCapsule dom_ptr), Arg_s srcPath, Arg_s devAlias, Arg_i action, Arg_O pyobj_cbData]))"

text \<open>\<^verbatim>\<open>libvirt_virConnectDomainEventIOErrorReasonCallback\<close>, lines 6280 to 6333.\<close>

definition libvirt_virConnectDomainEventIOErrorReasonCallback ::
  "dispatch_env \<Rightarrow> nat \<Rightarrow> string option \<Rightarrow> string option \<Rightarrow> 32 word \<Rightarrow> string option \<Rightarrow> PyObject \<Rightarrow> callback_run" where
  "libvirt_virConnectDomainEventIOErrorReasonCallback env dom_ptr srcPath devAlias action reason pyobj_cbData =
     (if \<not> key_wrap_ok env then dispatch_cleanup None (Some (MemoryError, [])) 0 None
      else
        (let pyobj_conn = PyDict_GetItem pyobj_cbData (libvirt_constcharPtrWrap (Some ''conn'')) in
         if \<not> dom_wrap_ok env then dispatch_cleanup None (Some (MemoryError, [])) (1 - 1) None
         else
           call_dispatcher env pyobj_conn ''_dispatchDomainEventIOErrorReasonCallback''
             [Arg_O (PyCapsule dom_ptr), Arg_s srcPath, Arg_s devAlias, Arg_i action, Arg_s reason, Arg_O pyobj_cbData]))"

text \<open>
  The address and the subject that come with a graphics event:
  \<^verbatim>\<open>virDomainEventGraphicsAddress\<close>, and the identities of
  \<^verbatim>\<open>virDomainEventGraphicsSubject\<close>, each a type and a name.
\<close>

record virDomainEventGraphicsAddress =
  ga_family :: "32 word"
  ga_node :: "string option"
  ga_service :: "string option"

text \<open>The dictionary lines 6372 to 6381 build for an address (and lines 6383 to 6392).\<close>

definition graphics_address_dict :: "virDomainEventGraphicsAddress \<Rightarrow> PyObject" where
  "graphics_address_dict addr =
     PyDict (PyDict_SetItem (PyDict_SetItem (PyDict_SetItem []
       (libvirt_constcharPtrWrap (Some ''family'')) (libvirt_intWrap (ga_family addr)))
       (libvirt_constcharPtrWrap (Some ''node'')) (libvirt_constcharPtrWrap (ga_node addr)))
       (libvirt_constcharPtrWrap (Some ''service'')) (libvirt_constcharPtrWrap (ga_service addr)))"

text \<open>
  \<^verbatim>\<open>libvirt_virConnectDomainEventGraphicsCallback\<close>, lines 6335 to 6426. The two
  dictionaries and the list of pairs are built without a check (the source says so).
\<close>

definition libvirt_virConnectDomainEventGraphicsCallback ::
  "dispatch_env \<Rightarrow> nat \<Rightarrow> 32 word \<Rightarrow> virDomainEventGraphicsAddress \<Rightarrow> virDomainEventGraphicsAddress \<Rightarrow>
   string option \<Rightarrow> (string option \<times> string option) list \<Rightarrow> PyObject \<Rightarrow> callback_run" where
  "libvirt_virConnectDomainEventGraphicsCallback env dom_ptr phase local remote authScheme subject pyobj_cbData =
     (if \<not> key_wrap_ok env then dispatch_cleanup None (Some (MemoryError, [])) 0 None
      else
        (let pyobj_conn = PyDict_GetItem pyobj_cbData (libvirt_constcharPtrWrap (Some ''conn'')) in
         if \<not> dom_wrap_ok env then dispatch_cleanup None (Some (MemoryError, [])) (1 - 1) None
         else
           (let pyobj_local = graphics_address_dict local;
                pyobj_remote = graphics_address_dict remote;
                pyobj_subject =
                  PyList (map (\<lambda>(t, n). PyTuple [libvirt_constcharPtrWrap t, libvirt_constcharPtrWrap n])
                            subject)
            in
            call_dispatcher env pyobj_conn ''_dispatchDomainEventGraphicsCallback''
              [Arg_O (PyCapsule dom_ptr), Arg_i phase, Arg_O pyobj_local, Arg_O pyobj_remote,
               Arg_s authScheme, Arg_O pyobj_subject, Arg_O pyobj_cbData])))"

text \<open>\<^verbatim>\<open>libvirt_virConnectDomainEventBlockJobCallback\<close>, lines 6428 to 6478.\<close>

definition libvirt_virConnectDomainEventBlockJobCallback ::
  "dispatch_env \<Rightarrow> nat \<Rightarrow> string option \<Rightarrow> 32 word \<Rightarrow> 32 word \<Rightarrow> PyObject \<Rightarrow> callback_run" where
  "libvirt_virConnectDomainEventBlockJobCallback env dom_ptr disk type status pyobj_cbData =
     (if \<not> key_wrap_ok env then dispatch_cleanup None (Some (MemoryError, [])) 0 None
      else
        (let pyobj_conn = PyDict_GetItem pyobj_cbData (libvirt_constcharPtrWrap (Some ''conn'')) in
         if \<not> dom_wrap_ok env then dispatch_cleanup None (Some (MemoryError, [])) (1 - 1) None
         else
           call_dispatcher env pyobj_conn ''_dispatchDomainEventBlockJobCallback''
             [Arg_O (PyCapsule dom_ptr), Arg_s disk, Arg_i type, Arg_i status, Arg_O pyobj_cbData]))"

text \<open>\<^verbatim>\<open>libvirt_virConnectDomainEventDiskChangeCallback\<close>, lines 6480 to 6533.\<close>

definition libvirt_virConnectDomainEventDiskChangeCallback ::
  "dispatch_env \<Rightarrow> nat \<Rightarrow> string option \<Rightarrow> string option \<Rightarrow> string option \<Rightarrow> 32 word \<Rightarrow> PyObject \<Rightarrow> callback_run" where
  "libvirt_virConnectDomainEventDiskChangeCallback env dom_ptr oldSrcPath newSrcPath devAlias reason pyobj_cbData =
     (if \<not> key_wrap_ok env then dispatch_cleanup None (Some (MemoryError, [])) 0 None
      else
        (let pyobj_conn = PyDict_GetItem pyobj_cbData (libvirt_constcharPtrWrap (Some ''conn'')) in
         if \<not> dom_wrap_ok env then dispatch_cleanup None (Some (MemoryError, [])) (1 - 1) None
         else
           call_dispatcher env pyobj_conn ''_dispatchDomainEventDiskChangeCallback''
             [Arg_O (PyCapsule dom_ptr), Arg_s oldSrcPath, Arg_s newSrcPath, Arg_s devAlias, Arg_i reason, Arg_O pyobj_cbData]))"

text \<open>\<^verbatim>\<open>libvirt_virConnectDomainEventTrayChangeCallback\<close>, lines 6535 to 6585.\<close>

definition libvirt_virConnectDomainEventTrayChangeCallback ::
  "dispatch_env \<Rightarrow> nat \<Rightarrow> string option \<Rightarrow> 32 word \<Rightarrow> PyObject \<Rightarrow> callback_run" where
  "libvirt_virConnectDomainEventTrayChangeCallback env dom_ptr devAlias reason pyobj_cbData =
     (if \<not> key_wrap_ok env then dispatch_cleanup None (Some (MemoryError, [])) 0 None
      else
        (let pyobj_conn = PyDict_GetItem pyobj_cbData (libvirt_constcharPtrWrap (Some ''conn'')) in
         if \<not> dom_wrap_ok env then dispatch_cleanup None (Some (MemoryError, [])) (1 - 1) None
         else
           call_dispatcher env pyobj_conn ''_dispatchDomainEventTrayChangeCallback''
             [Arg_O (PyCapsule dom_ptr), Arg_s devAlias, Arg_i reason, Arg_O pyobj_cbData]))"

text \<open>\<^verbatim>\<open>libvirt_virConnectDomainEventPMWakeupCallback\<close>, lines 6587 to 6637.\<close>

definition libvirt_virConnectDomainEventPMWakeupCallback ::
  "dispatch_env \<Rightarrow> nat \<Rightarrow> 32 word \<Rightarrow> PyObject \<Rightarrow> callback_run" where
  "libvirt_virConnectDomainEventPMWakeupCallback env dom_ptr reason pyobj_cbData =
     (if \<not> key_wrap_ok env then dispatch_cleanup None (Some (MemoryError, [])) 0 None
      else
        (let pyobj_conn = PyDict_GetItem pyobj_cbData (libvirt_constcharPtrWrap (Some ''conn'')) in
         if \<not> dom_wrap_ok env then dispatch_cleanup None (Some (MemoryError, [])) (1 - 1) None
         else
           call_dispatcher env pyobj_conn ''_dispatchDomainEventPMWakeupCallback''
             [Arg_O (PyCapsule dom_ptr), Arg_i reason, Arg_O pyobj_cbData]))"

text \<open>\<^verbatim>\<open>libvirt_virConnectDomainEventPMSuspendCallback\<close>, lines 6639 to 6689.\<close>

definition libvirt_virConnectDomainEventPMSuspendCallback ::
  "dispatch_env \<Rightarrow> nat \<Rightarrow> 32 word \<Rightarrow> PyObject \<Rightarrow> callback_run" where
  "libvirt_virConnectDomainEventPMSuspendCallback env dom_ptr reason pyobj_cbData =
     (if \<not> key_wrap_ok env then dispatch_cleanup None (Some (MemoryError, [])) 0 None
      else
        (let pyobj_conn = PyDict_GetItem pyobj_cbData (libvirt_constcharPtrWrap (Some ''conn'')) in
         if \<not> dom_wrap_ok env then dispatch_cleanup None (Some (MemoryError, [])) (1 - 1) None
         else
           call_dispatcher env pyobj_conn ''_dispatchDomainEventPMSuspendCallback''
             [Arg_O (PyCapsule dom_ptr), Arg_i reason, Arg_O pyobj_cbData]))"

text \<open>\<^verbatim>\<open>libvirt_virConnectDomainEventBalloonChangeCallback\<close>, lines 6693 to 6743.\<close>

definition libvirt_virConnectDomainEventBalloonChangeCallback ::
  "dispatch_env \<Rightarrow> nat \<Rightarrow> 64 word \<Rightarrow> PyObject \<Rightarrow> callback_run" where
  "libvirt_virConnectDomainEventBalloonChangeCallback env dom_ptr actual pyobj_cbData =
     (if \<not> key_wrap_ok env then dispatch_cleanup None (Some (MemoryError, [])) 0 None
      else
        (let pyobj_conn = PyDict_GetItem pyobj_cbData (libvirt_constcharPtrWrap (Some ''conn'')) in
         if \<not> dom_wrap_ok env then dispatch_cleanup None (Some (MemoryError, [])) (1 - 1) None
         else
           call_dispatcher env pyobj_conn ''_dispatchDomainEventBalloonChangeCallback''
             [Arg_O (PyCapsule dom_ptr), Arg_L actual, Arg_O pyobj_cbData]))"

text \<open>\<^verbatim>\<open>libvirt_virConnectDomainEventPMSuspendDiskCallback\<close>, lines 6747 to 6797.\<close>

definition libvirt_virConnectDomainEventPMSuspendDiskCallback ::
  "dispatch_env \<Rightarrow> nat \<Rightarrow> 32 word \<Rightarrow> PyObject \<Rightarrow> callback_run" where
  "libvirt_virConnectDomainEventPMSuspendDiskCallback env dom_ptr reason pyobj_cbData =
     (if \<not> key_wrap_ok env then dispatch_cleanup None (Some (MemoryError, [])) 0 None
      else
        (let pyobj_conn = PyDict_GetItem pyobj_cbData (libvirt_constcharPtrWrap (Some ''conn'')) in
         if \<not> dom_wrap_ok env then dispatch_cleanup None (Some (MemoryError, [])) (1 - 1) None
         else
           call_dispatcher env pyobj_conn ''_dispatchDomainEventPMSuspendDiskCallback''
             [Arg_O (PyCapsule dom_ptr), Arg_i reason, Arg_O pyobj_cbData]))"

text \<open>\<^verbatim>\<open>libvirt_virConnectDomainEventDeviceRemovedCallback\<close>, lines 6801 to 6849.\<close>

definition libvirt_virConnectDomainEventDeviceRemovedCallback ::
  "dispatch_env \<Rightarrow> nat \<Rightarrow> string option \<Rightarrow> PyObject \<Rightarrow> callback_run" where
  "libvirt_virConnectDomainEventDeviceRemovedCallback env dom_ptr devAlias pyobj_cbData =
     (if \<not> key_wrap_ok env then dispatch_cleanup None (Some (MemoryError, [])) 0 None
      else
        (let pyobj_conn = PyDict_GetItem pyobj_cbData (libvirt_constcharPtrWrap (Some ''conn'')) in
         if \<not> dom_wrap_ok env then dispatch_cleanup None (Some (MemoryError, [])) (1 - 1) None
         else
           call_dispatcher env pyobj_conn ''_dispatchDomainEventDeviceRemovedCallback''
             [Arg_O (PyCapsule dom_ptr), Arg_s devAlias, Arg_O pyobj_cbData]))"

text \<open>
  \<^verbatim>\<open>libvirt_virConnectDomainEventTunableCallback\<close>, lines 6853 to 6909: the typed
  parameters are decoded first, and a failure of the decoder leaves for \<^verbatim>\<open>cleanup\<close>
  with its exception set. \<open>None\<close> is undefined behaviour of the decoder.
\<close>

definition libvirt_virConnectDomainEventTunableCallback ::
  "dispatch_env \<Rightarrow> nat \<Rightarrow> virTypedParameter list \<Rightarrow> int \<Rightarrow> PyObject \<Rightarrow> callback_run option" where
  "libvirt_virConnectDomainEventTunableCallback env dom_ptr params nparams pyobj_cbData =
     (case getPyVirTypedParameter params nparams of
        Undefined \<Rightarrow> None
      | Raise e m \<Rightarrow> Some (dispatch_cleanup None (Some (e, m)) 0 None)
      | Return pyobj_dict \<Rightarrow>
          Some
           (if \<not> key_wrap_ok env then dispatch_cleanup None (Some (MemoryError, [])) 0 None
            else
              (let pyobj_conn = PyDict_GetItem pyobj_cbData (libvirt_constcharPtrWrap (Some ''conn'')) in
               if \<not> dom_wrap_ok env then dispatch_cleanup None (Some (MemoryError, [])) (1 - 1) None
               else
                 call_dispatcher env pyobj_conn ''_dispatchDomainEventTunableCallback''
                   [Arg_O (PyCapsule dom_ptr), Arg_O pyobj_dict, Arg_O pyobj_cbData])))"

text \<open>\<^verbatim>\<open>libvirt_virConnectDomainEventAgentLifecycleCallback\<close>, lines 6913 to 6963.\<close>

definition libvirt_virConnectDomainEventAgentLifecycleCallback ::
  "dispatch_env \<Rightarrow> nat \<Rightarrow> 32 word \<Rightarrow> 32 word \<Rightarrow> PyObject \<Rightarrow> callback_run" where
  "libvirt_virConnectDomainEventAgentLifecycleCallback env dom_ptr state reason pyobj_cbData =
     (if \<not> key_wrap_ok env then dispatch_cleanup None (Some (MemoryError, [])) 0 None
      else
        (let pyobj_conn = PyDict_GetItem pyobj_cbData (libvirt_constcharPtrWrap (Some ''conn'')) in
         if \<not> dom_wrap_ok env then dispatch_cleanup None (Some (MemoryError, [])) (1 - 1) None
         else
           call_dispatcher env pyobj_conn ''_dispatchDomainEventAgentLifecycleCallback''
             [Arg_O (PyCapsule dom_ptr), Arg_i state, Arg_i reason, Arg_O pyobj_cbData]))"

text \<open>\<^verbatim>\<open>libvirt_virConnectDomainEventDeviceAddedCallback\<close>, lines 6967 to 7016.\<close>

definition libvirt_virConnectDomainEventDeviceAddedCallback ::
  "dispatch_env \<Rightarrow> nat \<Rightarrow> string option \<Rightarrow> PyObject \<Rightarrow> callback_run" where
  "libvirt_virConnectDomainEventDeviceAddedCallback env dom_ptr devAlias pyobj_cbData =
     (if \<not> key_wrap_ok env then dispatch_cleanup None (Some (MemoryError, [])) 0 None
      else
        (let pyobj_conn = PyDict_GetItem pyobj_cbData (libvirt_constcharPtrWrap (Some ''conn'')) in
         if \<not> dom_wrap_ok env then dispatch_cleanup None (Some (MemoryError, [])) (1 - 1) None
         else
           call_dispatcher env pyobj_conn ''_dispatchDomainEventDeviceAddedCallback''
             [Arg_O (PyCapsule dom_ptr), Arg_s devAlias, Arg_O pyobj_cbData]))"

text \<open>\<^verbatim>\<open>libvirt_virConnectNetworkEventLifecycleCallback\<close>, lines 7183 to 7235.\<close>

definition libvirt_virConnectNetworkEventLifecycleCallback ::
  "dispatch_env \<Rightarrow> nat \<Rightarrow> 32 word \<Rightarrow> 32 word \<Rightarrow> PyObject \<Rightarrow> callback_run" where
  "libvirt_virConnectNetworkEventLifecycleCallback env net_ptr event detail pyobj_cbData =
     (if \<not> key_wrap_ok env then dispatch_cleanup None (Some (MemoryError, [])) 0 None
      else
        (let pyobj_conn = PyDict_GetItem pyobj_cbData (libvirt_constcharPtrWrap (Some ''conn'')) in
         if \<not> net_wrap_ok env then dispatch_cleanup None (Some (MemoryError, [])) (1 - 1) None
         else
           call_dispatcher env pyobj_conn ''_dispatchNetworkEventLifecycleCallback''
             [Arg_O (PyCapsule net_ptr), Arg_i event, Arg_i detail, Arg_O pyobj_cbData]))"

text \<open>
  An event as the native library delivers it, with the data it hands to the callback.
  \<open>Ev_legacy\<close> is an event of a registration made by \<^verbatim>\<open>virConnectDomainEventRegister\<close>
  (line 5450); the others are those of the event identifiers of lines 7046 to 7122 and of
  the network lifecycle event.
\<close>

datatype native_event =
    Ev_legacy "32 word" "32 word"
  | Ev_lifecycle "32 word" "32 word"
  | Ev_generic
  | Ev_rtc_change "64 word"
  | Ev_watchdog "32 word"
  | Ev_io_error "string option" "string option" "32 word"
  | Ev_io_error_reason "string option" "string option" "32 word" "string option"
  | Ev_graphics "32 word" virDomainEventGraphicsAddress virDomainEventGraphicsAddress
      "string option" "(string option \<times> string option) list"
  | Ev_block_job "string option" "32 word" "32 word"
  | Ev_disk_change "string option" "string option" "string option" "32 word"
  | Ev_tray_change "string option" "32 word"
  | Ev_pmwakeup "32 word"
  | Ev_pmsuspend "32 word"
  | Ev_balloon_change "64 word"
  | Ev_pmsuspend_disk "32 word"
  | Ev_device_removed "string option"
  | Ev_tunable "virTypedParameter list" int
  | Ev_agent_lifecycle "32 word" "32 word"
  | Ev_device_added "string option"
  | Ev_network_lifecycle "32 word" "32 word"

text \<open>
  The callback the glue has registered for the event (the \<^verbatim>\<open>switch\<close> of lines 7046 to
  7122, and lines 5450 and 7267), called by the native library with the data of the
  event, the domain or network \<open>ptr\<close> and the \<^verbatim>\<open>opaque\<close> pointer of the registration.
\<close>

definition dispatch_callback :: "dispatch_env \<Rightarrow> native_event \<Rightarrow> nat \<Rightarrow> PyObject \<Rightarrow> callback_run option" where
  "dispatch_callback env ev ptr opaque =
     (case ev of
        Ev_legacy event detail \<Rightarrow> Some (libvirt_virConnectDomainEventCallback env ptr event detail opaque)
      | Ev_lifecycle event detail \<Rightarrow>
          Some (libvirt_virConnectDomainEventLifecycleCallback env ptr event detail opaque)
      | Ev_generic \<Rightarrow> Some (libvirt_virConnectDomainEventGenericCallback env ptr opaque)
      | Ev_rtc_change utcoffset \<Rightarrow>
          Some (libvirt_virConnectDomainEventRTCChangeCallback env ptr utcoffset opaque)
      | Ev_watchdog action \<Rightarrow> Some (libvirt_virConnectDomainEventWatchdogCallback env ptr action opaque)
      | Ev_io_error srcPath devAlias action \<Rightarrow>
          Some (libvirt_virConnectDomainEventIOErrorCallback env ptr srcPath devAlias action opaque)
      | Ev_io_error_reason srcPath devAlias action reason \<Rightarrow>
          Some (libvirt_virConnectDomainEventIOErrorReasonCallback env ptr srcPath devAlias action reason opaque)
      | Ev_graphics phase local remote authScheme subject \<Rightarrow>
          Some (libvirt_virConnectDomainEventGraphicsCallback env ptr phase local remote authScheme
                  subject opaque)
      | Ev_block_job disk type status \<Rightarrow>
          Some (libvirt_virConnectDomainEventBlockJobCallback env ptr disk type status opaque)
      | Ev_disk_change oldSrcPath newSrcPath devAlias reason \<Rightarrow>
          Some (libvirt_virConnectDomainEventDiskChangeCallback env ptr oldSrcPath newSrcPath devAlias
                  reason opaque)
      | Ev_tray_change devAlias reason \<Rightarrow>
          Some (libvirt_virConnectDomainEventTrayChangeCallback env ptr devAlias reason opaque)
      | Ev_pmwakeup reason \<Rightarrow> Some (libvirt_virConnectDomainEventPMWakeupCallback env ptr reason opaque)
      | Ev_pmsuspend reason \<Rightarrow> Some (libvirt_virConnectDomainEventPMSuspendCallback env ptr reason opaque)
      | Ev_balloon_change actual \<Rightarrow>
          Some (libvirt_virConnectDomainEventBalloonChangeCallback env ptr actual opaque)
      | Ev_pmsuspend_disk reason \<Rightarrow>
          Some (libvirt_virConnectDomainEventPMSuspendDiskCallback env ptr reason opaque)
      | Ev_device_removed devAlias \<Rightarrow>
          Some (libvirt_virConnectDomainEventDeviceRemovedCallback env ptr devAlias opaque)
      | Ev_tunable params nparams \<Rightarrow>
          libvirt_virConnectDomainEventTunableCallback env ptr params nparams opaque
      | Ev_agent_lifecycle state reason \<Rightarrow>
          Some (libvirt_virConnectDomainEventAgentLifecycleCallback env ptr state reason opaque)
      | Ev_device_added devAlias \<Rightarrow>
          Some (libvirt_virConnectDomainEventDeviceAddedCallback env ptr devAlias opaque)
      | Ev_network_lifecycle event detail \<Rightarrow>
          Some (libvirt_virConnectNetworkEventLifecycleCallback env ptr event detail opaque))"

section \<open>Notions used in the statements\<close>

text \<open>
  The error with which a value fails to convert to the payload of a kind, \<open>None\<close> when
  it converts; a kind code that is none of the seven is itself the failure.
\<close>

definition conversion_failure :: "(int \<Rightarrow> double option) \<Rightarrow> int \<Rightarrow> PyObject \<Rightarrow> (PyExc \<times> string) option" where
  \<open>conversion_failure td kind val =
     (if kind = VIR_TYPED_PARAM_INT then raised (libvirt_intUnwrap val)
      else if kind = VIR_TYPED_PARAM_UINT then raised (libvirt_uintUnwrap val)
      else if kind = VIR_TYPED_PARAM_LLONG then raised (libvirt_longlongUnwrap val)
      else if kind = VIR_TYPED_PARAM_ULLONG then raised (libvirt_ulonglongUnwrap val)
      else if kind = VIR_TYPED_PARAM_DOUBLE then raised (libvirt_doubleUnwrap td val)
      else if kind = VIR_TYPED_PARAM_BOOLEAN then raised (libvirt_boolUnwrap val)
      else if kind = VIR_TYPED_PARAM_STRING then raised (libvirt_charPtrUnwrap val)
      else Some (LookupError, ''Type value "'' @ show_int kind @ ''" not recognized''))\<close>

text \<open>
  The error with which one entry of a dictionary fails to convert against a schema,
  \<open>None\<close> when it converts: a key that is no string fails with the type error of its
  conversion to a C string; a string key that names no field of the schema, with the
  lookup error that names the key; a key that names a field, with the error of the
  conversion of the value to the kind of the first field of that name.
\<close>

definition entry_failure ::
  "(int \<Rightarrow> double option) \<Rightarrow> virTypedParameter list \<Rightarrow> PyObject \<Rightarrow> PyObject \<Rightarrow> (PyExc \<times> string) option" where
  \<open>entry_failure td params key val =
     (case key of
        PyStr k \<Rightarrow>
          (case find (\<lambda>p. p_field p = k) params of
             None \<Rightarrow> Some (LookupError, ''Attribute name "'' @ k @ ''" could not be recognized'')
           | Some p \<Rightarrow> conversion_failure td (p_type p) val)
      | _ \<Rightarrow> Some (TypeError, ''expected a string''))\<close>

definition wf_param :: "virTypedParameter \<Rightarrow> bool" where
  "wf_param p =
     (known_kind p \<and> length (p_field p) < VIR_TYPED_PARAM_FIELD_LENGTH \<and>
      (case p_value p of V_b b \<Rightarrow> b = 0 \<or> b = 1 | V_s s \<Rightarrow> s \<noteq> None | _ \<Rightarrow> True))"

definition uint_below_int_max :: "virTypedParameter \<Rightarrow> bool" where
  "uint_below_int_max p = (case p_value p of V_ui ui \<Rightarrow> ui < 2 ^ 31 | _ \<Rightarrow> True)"

definition wrapped :: "virTypedParameter \<Rightarrow> PyObject" where
  "wrapped p = (case wrap_param_value p of Return v \<Rightarrow> v | _ \<Rightarrow> PyNone)"

definition sample_set :: "virTypedParameter list" where
  "sample_set =
     [\<lparr>p_field = ''cpu_shares'', p_type = VIR_TYPED_PARAM_ULLONG, p_value = V_ul 1024\<rparr>,
      \<lparr>p_field = ''vcpu_quota'', p_type = VIR_TYPED_PARAM_LLONG, p_value = V_l (- 1)\<rparr>,
      \<lparr>p_field = ''weight'', p_type = VIR_TYPED_PARAM_UINT, p_value = V_ui 500\<rparr>,
      \<lparr>p_field = ''nice'', p_type = VIR_TYPED_PARAM_INT, p_value = V_i (- 5)\<rparr>,
      \<lparr>p_field = ''enabled'', p_type = VIR_TYPED_PARAM_BOOLEAN, p_value = V_b 1\<rparr>,
      \<lparr>p_field = ''nodeset'', p_type = VIR_TYPED_PARAM_STRING, p_value = V_s (Some ''0-3'')\<rparr>]"




text \<open>
  The connection proxy of an event: the \<^verbatim>\<open>opaque\<close> pointer itself for an event of
  the first registration interface, else the entry \<^verbatim>\<open>"conn"\<close> of the dictionary
  \<^verbatim>\<open>opaque\<close> points to.
\<close>

definition proxy_of :: "native_event \<Rightarrow> PyObject \<Rightarrow> PyObject option" where
  "proxy_of ev opaque =
     (case ev of
        Ev_legacy event detail \<Rightarrow> Some opaque
      | _ \<Rightarrow> PyDict_GetItem opaque (PyStr ''conn''))"

text \<open>The dispatch method of the connection proxy that an event is handed to.\<close>

definition dispatcher_of :: "native_event \<Rightarrow> string" where
  "dispatcher_of ev =
     (case ev of
        Ev_legacy event detail \<Rightarrow> ''_dispatchDomainEventCallbacks''
      | Ev_lifecycle event detail \<Rightarrow> ''_dispatchDomainEventLifecycleCallback''
      | Ev_generic \<Rightarrow> ''_dispatchDomainEventGenericCallback''
      | Ev_rtc_change utcoffset \<Rightarrow> ''_dispatchDomainEventRTCChangeCallback''
      | Ev_watchdog action \<Rightarrow> ''_dispatchDomainEventWatchdogCallback''
      | Ev_io_error srcPath devAlias action \<Rightarrow> ''_dispatchDomainEventIOErrorCallback''
      | Ev_io_error_reason srcPath devAlias action reason \<Rightarrow> ''_dispatchDomainEventIOErrorReasonCallback''
      | Ev_graphics phase local remote authScheme subject \<Rightarrow> ''_dispatchDomainEventGraphicsCallback''
      | Ev_block_job disk type status \<Rightarrow> ''_dispatchDomainEventBlockJobCallback''
      | Ev_disk_change oldSrcPath newSrcPath devAlias reason \<Rightarrow> ''_dispatchDomainEventDiskChangeCallback''
      | Ev_tray_change devAlias reason \<Rightarrow> ''_dispatchDomainEventTrayChangeCallback''
      | Ev_pmwakeup reason \<Rightarrow> ''_dispatchDomainEventPMWakeupCallback''
      | Ev_pmsuspend reason \<Rightarrow> ''_dispatchDomainEventPMSuspendCallback''
      | Ev_balloon_change actual \<Rightarrow> ''_dispatchDomainEventBalloonChangeCallback''
      | Ev_pmsuspend_disk reason \<Rightarrow> ''_dispatchDomainEventPMSuspendDiskCallback''
      | Ev_device_removed devAlias \<Rightarrow> ''_dispatchDomainEventDeviceRemovedCallback''
      | Ev_tunable params nparams \<Rightarrow> ''_dispatchDomainEventTunableCallback''
      | Ev_agent_lifecycle state reason \<Rightarrow> ''_dispatchDomainEventAgentLifecycleCallback''
      | Ev_device_added devAlias \<Rightarrow> ''_dispatchDomainEventDeviceAddedCallback''
      | Ev_network_lifecycle event detail \<Rightarrow> ''_dispatchNetworkEventLifecycleCallback'')"

text \<open>
  Whether the arguments of the dispatch could be wrapped: the key \<^verbatim>\<open>"conn"\<close> (not
  needed for an event of the first registration interface), the domain or the network,
  and, for a tunable event, the typed parameters.
\<close>

definition arguments_wrapped :: "dispatch_env \<Rightarrow> native_event \<Rightarrow> bool" where
  "arguments_wrapped env ev =
     (case ev of
        Ev_legacy event detail \<Rightarrow> dom_wrap_ok env
      | Ev_tunable params nparams \<Rightarrow>
          (case getPyVirTypedParameter params nparams of Return d \<Rightarrow> True | _ \<Rightarrow> False) \<and>
          key_wrap_ok env \<and> dom_wrap_ok env
      | Ev_network_lifecycle event detail \<Rightarrow> key_wrap_ok env \<and> net_wrap_ok env
      | _ \<Rightarrow> key_wrap_ok env \<and> dom_wrap_ok env)"

text \<open>
  An event whose data the decoder cannot read without undefined behaviour: a tunable
  event with a count beyond its array, or with an element whose union member is not the
  one of its kind.
\<close>

definition unreadable_event :: "native_event \<Rightarrow> bool" where
  "unreadable_event ev =
     (case ev of
        Ev_tunable params nparams \<Rightarrow> getPyVirTypedParameter params nparams = Undefined
      | _ \<Rightarrow> False)"

text \<open>
  The rule of the return code for one run of a callback. No exception is left set on
  return. When no method was called, the callback returns \<open>- 1\<close> and one exception has
  been written. When a method was called: if it returned, the callback returns 0 and
  nothing has been written; if it raised, the callback returns \<open>- 1\<close> and the exception
  raised has been written; if the object has no such attribute, the callback returns
  \<open>- 1\<close> and the attribute error has been written.
\<close>

definition return_code_rule :: "dispatch_env \<Rightarrow> callback_run \<Rightarrow> bool" where
  "return_code_rule env r =
     (cb_pending r = None \<and>
      (case cb_called r of
         None \<Rightarrow> cb_ret r = - 1 \<and> length (cb_printed r) = 1
       | Some (proxy, name, args) \<Rightarrow>
          (case call_method env proxy name args of
             Method_returns v \<Rightarrow> cb_ret r = 0 \<and> cb_printed r = []
           | Method_raises e m \<Rightarrow> cb_ret r = - 1 \<and> cb_printed r = [(e, m)]
           | No_attribute \<Rightarrow> cb_ret r = - 1 \<and> cb_printed r = [(AttributeError, name)])))"

text \<open>Sample states and environments for the closed statements.\<close>

definition no_double :: "int \<Rightarrow> double option" where
  "no_double n = None"

definition returns_capsules :: "PyObject \<Rightarrow> PyObject outcome" where
  "returns_capsules args = Return (PyTuple [PyLong 7, PyCapsule 4096, PyCapsule 8192])"

definition raises_type_error :: "PyObject \<Rightarrow> PyObject outcome" where
  "raises_type_error args = Raise TypeError ''no such timer''"

definition returns_number :: "PyObject \<Rightarrow> PyObject outcome" where
  "returns_number args = Return (PyLong 0)"

definition first_registration :: event_impl where
  "first_registration =
     \<lparr>addHandleObj = Some 1, addHandleName = Some ''add_handle'',
      updateHandleObj = Some 2, updateHandleName = Some ''update_handle'',
      removeHandleObj = Some 3, removeHandleName = Some ''remove_handle'',
      addTimeoutObj = Some 4, addTimeoutName = Some ''add_timeout'',
      updateTimeoutObj = Some 5, updateTimeoutName = Some ''update_timeout'',
      removeTimeoutObj = Some 6, removeTimeoutName = Some ''remove_timeout'',
      refcnt = (\<lambda>a. 1), native_registrations = 1\<rparr>"


definition raising_env :: dispatch_env where
  "raising_env =
     \<lparr>key_wrap_ok = True, dom_wrap_ok = True, net_wrap_ok = True,
      call_method = (\<lambda>proxy name args. Method_raises TypeError ''handler failed'')\<rparr>"

definition returning_env :: dispatch_env where
  "returning_env =
     \<lparr>key_wrap_ok = True, dom_wrap_ok = True, net_wrap_ok = True,
      call_method = (\<lambda>proxy name args. Method_returns (PyLong 0))\<rparr>"

definition two_field_domain :: native_domain where
  "two_field_domain =
     \<lparr>sched_type = Some (''posix'', 2),
      sched_params = Some
        [\<lparr>p_field = ''cpu_shares'', p_type = VIR_TYPED_PARAM_ULLONG, p_value = V_ul 1024\<rparr>,
         \<lparr>p_field = ''vcpu_quota'', p_type = VIR_TYPED_PARAM_LLONG, p_value = V_l (- 1)\<rparr>],
      set_retval = 0\<rparr>"

text \<open>
  What the two-phase protocol asks of one invocation that started on the heap \<open>h\<close>: it
  is defined, the native heap is again \<open>h\<close>, the native set call (when made) got the
  override array with its own length, which is the cardinality of the dictionary, that
  array was freed with the same count, and no array was freed with a count beyond it.
\<close>

definition released_all :: "heap \<Rightarrow> PyObject list \<Rightarrow> set_run \<Rightarrow> bool" where
  "released_all h args r =
     (run_ret r \<noteq> Undefined \<and> run_heap r = h \<and>
      (case run_set_call r of
         None \<Rightarrow> True
       | Some (arr, n) \<Rightarrow>
           n = int (length arr) \<and> (Some arr, n) \<in> set (run_freed r) \<and>
           (case args of [d, PyDict items] \<Rightarrow> length arr = length items | _ \<Rightarrow> False)) \<and>
      list_all (\<lambda>(a, n). case a of None \<Rightarrow> True | Some arr \<Rightarrow> size_t_of_int n \<le> length arr)
        (run_freed r))"

section \<open>Properties of the decoder\<close>

lemma size_t_of_int_nat [simp]: "size_t_of_int (int n) = n"
  by (simp add: size_t_of_int_def)

text \<open>
  C10. Decoding an empty typed-parameter set (count 0) succeeds and returns a freshly
  created empty dictionary, whatever the array pointer points to.
\<close>

theorem decode_empty_set:
  "getPyVirTypedParameter params 0 = Return (PyDict [])"
  by (simp add: getPyVirTypedParameter_def size_t_of_int_def)

lemma wrap_known: "known_kind q \<Longrightarrow> \<exists>v. wrap_param_value q = Return v"
  by (auto simp: known_kind_def wrap_param_value_def)

lemma wrap_unknown:
  \<open>unknown_kind p \<Longrightarrow>
   wrap_param_value p = Raise LookupError (''Type value "'' @ show_int (p_type p) @ ''" not recognized'')\<close>
  by (auto simp: unknown_kind_def wrap_param_value_def)

lemma loop_unknown:
  \<open>\<forall>q \<in> set pre. known_kind q \<Longrightarrow> unknown_kind p \<Longrightarrow> length pre < n \<Longrightarrow>
   getPyVirTypedParameter_loop n (pre @ p # post) info =
     Raise LookupError (''Type value "'' @ show_int (p_type p) @ ''" not recognized'')\<close>
proof (induction pre arbitrary: n info)
  case Nil
  then obtain m where "n = Suc m" by (cases n) auto
  with Nil show ?case by (simp add: wrap_unknown)
next
  case (Cons q pre)
  then obtain m where n: "n = Suc m" by (cases n) auto
  from Cons.prems obtain v where "wrap_param_value q = Return v"
    using wrap_known by auto
  with Cons n show ?case by simp
qed

text \<open>
  C4. A typed-parameter set whose first element of an unrecognized kind is \<open>p\<close>, the
  elements before it being well-formed elements of the seven known kinds: decoding raises
  a lookup error whose message gives the kind code of \<open>p\<close> as a decimal number and
  returns the failure, no dictionary. Decoding stops at \<open>p\<close>: the result does not depend
  on the elements after it, which are never read.
\<close>

theorem decode_unknown_kind:
  assumes "\<forall>q \<in> set pre. known_kind q" and "unknown_kind p"
  shows \<open>getPyVirTypedParameter (pre @ p # post) (int (length (pre @ p # post))) =
           Raise LookupError (''Type value "'' @ show_int (p_type p) @ ''" not recognized'')\<close>
proof -
  have "length pre < length (pre @ p # post)" by simp
  from loop_unknown[OF assms this, of post "[]"] show ?thesis
    unfolding getPyVirTypedParameter_def size_t_of_int_nat .
qed

theorem decode_unknown_kind_witness:
  \<open>getPyVirTypedParameter
     [\<lparr>p_field = ''cpu_shares'', p_type = VIR_TYPED_PARAM_ULLONG, p_value = V_ul 1024\<rparr>,
      \<lparr>p_field = ''future'', p_type = 9, p_value = V_i 0\<rparr>,
      \<lparr>p_field = ''broken'', p_type = VIR_TYPED_PARAM_INT, p_value = V_s None\<rparr>] 3 =
   Raise LookupError ''Type value "9" not recognized''\<close>
proof -
  have k: "\<forall>q \<in> set [\<lparr>p_field = ''cpu_shares'', p_type = VIR_TYPED_PARAM_ULLONG, p_value = V_ul 1024\<rparr>].
             known_kind q"
    by (simp add: known_kind_def)
  have u: "unknown_kind \<lparr>p_field = ''future'', p_type = 9, p_value = V_i 0\<rparr>"
    by (simp add: unknown_kind_def)
  have s: "show_int 9 = ''9''" by code_simp
  from decode_unknown_kind[OF k u, of "[\<lparr>p_field = ''broken'', p_type = VIR_TYPED_PARAM_INT, p_value = V_s None\<rparr>]"]
  show ?thesis by (simp add: s)
qed

section \<open>Properties of the encoder against a schema\<close>

lemma clear_wf:
  "\<forall>t \<in> set arr. wf_entry t \<Longrightarrow> virTypedParamsClear arr h = Some (h - sum_list (map owned arr))"
proof (induction arr arbitrary: h)
  case Nil
  then show ?case by simp
next
  case (Cons t arr)
  then show ?case
    by (cases "p_value t") (auto simp: wf_entry_def owned_def split: option.splits)
qed

lemma find_param_total:
  "find_param (length params) params k \<noteq> None"
  by (induction params) auto

lemma find_param_None:
  "(find_param (length params) params k = Some None) = (k \<notin> p_field ` set params)"
  by (induction params) auto

lemma find_param_Some:
  "find_param (length params) params k = Some (Some p) \<Longrightarrow> p \<in> set params \<and> p_field p = k"
  by (induction params) (auto split: if_splits)

lemma unwrap_defined:
  "libvirt_intUnwrap v \<noteq> Undefined" "libvirt_uintUnwrap v \<noteq> Undefined"
  "libvirt_longlongUnwrap v \<noteq> Undefined" "libvirt_ulonglongUnwrap v \<noteq> Undefined"
  "libvirt_doubleUnwrap td v \<noteq> Undefined" "libvirt_boolUnwrap v \<noteq> Undefined"
  "libvirt_charPtrUnwrap v \<noteq> Undefined"
  by (auto simp: libvirt_intUnwrap_def libvirt_uintUnwrap_def libvirt_longlongUnwrap_def
      libvirt_ulonglongUnwrap_def libvirt_doubleUnwrap_def libvirt_boolUnwrap_def libvirt_charPtrUnwrap_def
      split: option.splits PyObject.splits)

lemma entry_defined:
  "setPyVirTypedParameter_entry td params (int (length params)) key val zero_param h = (st, t, h')
   \<Longrightarrow> st \<noteq> Undefined"
  by (auto simp: setPyVirTypedParameter_entry_def store_value_def Let_def size_t_of_int_def
      find_param_total unwrap_defined
      split: outcome.splits option.splits if_splits prod.splits)

lemma entry_Return:
  "setPyVirTypedParameter_entry td params (int (length params)) key val zero_param h = (Return u, t, h')
   \<Longrightarrow> wf_entry t \<and> h' = h + owned t \<and> (\<exists>p \<in> set params. key = PyStr (p_field p))"
  using find_param_Some[of params]
  by (auto simp: setPyVirTypedParameter_entry_def store_value_def Let_def size_t_of_int_def
      wf_entry_def owned_def zero_param_def libvirt_charPtrUnwrap_def
      split: outcome.splits option.splits if_splits prod.splits PyObject.splits)

lemma entry_Raise:
  "setPyVirTypedParameter_entry td params (int (length params)) key val zero_param h = (Raise e m, t, h')
   \<Longrightarrow> wf_entry t \<and> h' = h \<and> owned t = {#}"
  by (auto simp: setPyVirTypedParameter_entry_def store_value_def Let_def size_t_of_int_def
      wf_entry_def owned_def zero_param_def libvirt_charPtrUnwrap_def
      split: outcome.splits option.splits if_splits prod.splits PyObject.splits)

lemma wf_zero [simp]: "wf_entry zero_param" "owned zero_param = {#}"
  by (simp_all add: wf_entry_def owned_def zero_param_def)

lemma sum_list_replicate_empty [simp]: "sum_list (replicate n ({#} :: heap)) = {#}"
  by (induction n) auto

lemma free_whole:
  assumes "\<forall>t \<in> set arr. wf_entry t"
  shows "virTypedParamsFree (Some arr) (int (length arr)) h =
           Some (h - sum_list (map owned arr) - {#Buf_params (length arr)#})"
  using assms by (simp add: virTypedParamsFree_def clear_wf)

lemma loop_heap:
  assumes "\<forall>t \<in> set filled. wf_entry t"
    and "setPyVirTypedParameter_loop td params (int (length params)) (int (length filled + length items))
           items filled (replicate (length items) zero_param)
           (h0 + {#Buf_params (length filled + length items)#} + sum_list (map owned filled)) = (r, h')"
  shows "r \<noteq> Undefined \<and> (\<forall>e m. r = Raise e m \<longrightarrow> h' = h0) \<and>
         (\<forall>arr. r = Return arr \<longrightarrow> (\<forall>(k, v) \<in> set items. \<exists>p \<in> set params. k = PyStr (p_field p)))"
  using assms
proof (induction items arbitrary: filled)
  case Nil
  then show ?case by auto
next
  case (Cons kv items)
  obtain key val where kv: "kv = (key, val)" by (cases kv)
  let ?h = "h0 + {#Buf_params (length filled + length (kv # items))#} + sum_list (map owned filled)"
  obtain st t h1 where e: "setPyVirTypedParameter_entry td params (int (length params)) key val zero_param ?h = (st, t, h1)"
    by (metis prod_cases3)
  show ?case
  proof (cases st)
    case (Return u)
    from entry_Return[OF e[unfolded Return]] have t: "wf_entry t" "h1 = ?h + owned t"
      and m: "\<exists>p \<in> set params. key = PyStr (p_field p)" by auto
    have wf: "\<forall>x \<in> set (filled @ [t]). wf_entry x" using Cons.prems(1) t(1) by auto
    have run: "setPyVirTypedParameter_loop td params (int (length params)) (int (length (filled @ [t]) + length items))
           items (filled @ [t]) (replicate (length items) zero_param)
           (h0 + {#Buf_params (length (filled @ [t]) + length items)#} + sum_list (map owned (filled @ [t]))) = (r, h')"
      using Cons.prems(2) e Return t(2) by (simp add: kv ac_simps)
    from Cons.IH[OF wf run] m show ?thesis by (auto simp: kv)
  next
    case (Raise e' m')
    from entry_Raise[OF e[unfolded Raise]] have t: "wf_entry t" "h1 = ?h" "owned t = {#}" by auto
    let ?arr = "filled @ t # replicate (length items) zero_param"
    have wf: "\<forall>x \<in> set ?arr. wf_entry x" using Cons.prems(1) t(1) by auto
    have len: "int (length filled + length (kv # items)) = int (length ?arr)" by simp
    have "virTypedParamsFree (Some ?arr) (int (length filled + length (kv # items))) ?h = Some h0"
      unfolding len free_whole[OF wf] using t(3) by simp
    with Cons.prems(2) e Raise t(2) show ?thesis by (auto simp: kv)
  next
    case Undefined
    with entry_defined[OF e] show ?thesis by simp
  qed
qed

lemma fst_store_value: "fst (store_value r member temp) = map_outcome (\<lambda>_. ()) r"
  by (simp add: store_value_def split: outcome.split)

lemma find_param_find:
  "find_param (length params) params k = Some (find (\<lambda>p. p_field p = k) params)"
  by (induction params) auto

lemma status_of_raised:
  "r \<noteq> Undefined \<Longrightarrow>
   map_outcome (\<lambda>_. ()) r = (case raised r of None \<Rightarrow> Return () | Some (e, m) \<Rightarrow> Raise e m)"
  by (cases r) (simp_all add: raised_def)

lemma entry_status:
  "fst (setPyVirTypedParameter_entry td params (int (length params)) key val temp h) =
     (case entry_failure td params key val of None \<Rightarrow> Return () | Some (e, m) \<Rightarrow> Raise e m)"
proof (cases key)
  case (PyStr k)
  show ?thesis
  proof (cases "find (\<lambda>p. p_field p = k) params")
    case None
    then show ?thesis
      by (simp add: PyStr setPyVirTypedParameter_entry_def entry_failure_def libvirt_charPtrUnwrap_def
          find_param_find)
  next
    case (Some p)
    have s: "libvirt_charPtrUnwrap val \<noteq> Undefined" by (rule unwrap_defined)
    show ?thesis
      using s
      by (cases "libvirt_charPtrUnwrap val")
        (simp_all add: PyStr Some setPyVirTypedParameter_entry_def entry_failure_def
          conversion_failure_def find_param_find Let_def case_prod_beta fst_store_value
          status_of_raised unwrap_defined raised_def
          libvirt_charPtrUnwrap_def[of "PyStr k"])
  qed
qed (simp_all add: setPyVirTypedParameter_entry_def entry_failure_def libvirt_charPtrUnwrap_def)

lemma loop_first_failure:
  assumes "\<forall>(k', v') \<in> set pre. entry_failure td params k' v' = None"
    and "entry_failure td params key v = Some (e, m)"
  shows "fst (setPyVirTypedParameter_loop td params (int (length params)) sz
                (pre @ (key, v) # post) filled rest h) \<in> {Raise e m, Undefined}"
  using assms(1)
proof (induction pre arbitrary: filled rest h)
  case Nil
  show ?case
  proof (cases rest)
    case (Cons temp rest')
    obtain st t h1 where en: "setPyVirTypedParameter_entry td params (int (length params)) key v temp h = (st, t, h1)"
      by (metis prod_cases3)
    with entry_status[of td params key v temp h] assms(2) have "st = Raise e m" by simp
    with en show ?thesis by (simp add: Cons split: option.split)
  qed simp
next
  case (Cons kv pre)
  obtain k' v' where kv: "kv = (k', v')" by (cases kv)
  show ?case
  proof (cases rest)
    case c: (Cons temp rest')
    obtain st t h1 where en: "setPyVirTypedParameter_entry td params (int (length params)) k' v' temp h = (st, t, h1)"
      by (metis prod_cases3)
    from Cons.prems kv have "entry_failure td params k' v' = None" by simp
    with entry_status[of td params k' v' temp h] en have "st = Return ()" by simp
    moreover from Cons.prems have "\<forall>(k', v') \<in> set pre. entry_failure td params k' v' = None" by simp
    ultimately show ?thesis using Cons.IH[of "filled @ [t]" rest' h1] en by (simp add: kv c)
  qed (simp add: kv)
qed

lemma whole_heap:
  "setPyVirTypedParameter_loop td params (int (length params)) (int (length items))
           items [] (replicate (length items) zero_param)
           (add_mset (Buf_params (length items)) h) = (r, h')
   \<Longrightarrow> r \<noteq> Undefined \<and> (\<forall>e m. r = Raise e m \<longrightarrow> h' = h) \<and>
         (\<forall>arr. r = Return arr \<longrightarrow> (\<forall>(k, v) \<in> set items. \<exists>p \<in> set params. k = PyStr (p_field p)))"
  using loop_heap[of "[]" td params items h r h'] by simp

lemma unmatched_failure:
  assumes "\<forall>p \<in> set params. PyStr (p_field p) \<noteq> key"
  shows \<open>entry_failure td params key v =
           (case key of
              PyStr k \<Rightarrow> Some (LookupError, ''Attribute name "'' @ k @ ''" could not be recognized'')
            | _ \<Rightarrow> Some (TypeError, ''expected a string''))\<close>
proof (cases key)
  case (PyStr k)
  with assms have "find (\<lambda>p. p_field p = k) params = None"
    by (auto simp: find_None_iff)
  then show ?thesis by (simp add: PyStr entry_failure_def)
qed (simp_all add: entry_failure_def)

text \<open>
  C5, as amended. A dictionary with an entry whose key matches no field name of the
  schema (the schema given with its own length as count): the encode returns failure, no
  array, and the native heap is what it was before the call, so the array and every
  string copied for an entry converted before the failure have been released. The error
  raised is that of the first entry, in the order of the dictionary, that fails to
  convert: for an entry whose key is a string that matches no field name, the lookup
  error that names the key; for an entry whose key is not a string, a type error; for an
  entry whose key names a field, the error of the conversion of its value to the kind of
  that field (a lookup error when the kind code of the field is none of the seven). So
  the lookup error naming the unmatched key is raised when that key is a string and
  every entry before it converts, and a type error when that key is not a string and
  every entry before it converts.
\<close>

theorem encode_unmatched_key:
  assumes "items = pre @ (key, v) # post"
    and "\<forall>p \<in> set params. PyStr (p_field p) \<noteq> key"
  shows \<open>(\<exists>e m. setPyVirTypedParameter td (PyDict items) params (int (length params)) h = (Raise e m, h)) \<and>
         (\<forall>pre' k' v' post' e m.
            items = pre' @ (k', v') # post' \<and>
            (\<forall>(a, b) \<in> set pre'. entry_failure td params a b = None) \<and>
            entry_failure td params k' v' = Some (e, m) \<longrightarrow>
              setPyVirTypedParameter td (PyDict items) params (int (length params)) h = (Raise e m, h)) \<and>
         (\<forall>k. key = PyStr k \<longrightarrow>
            entry_failure td params key v =
              Some (LookupError, ''Attribute name "'' @ k @ ''" could not be recognized'')) \<and>
         ((\<forall>k. key \<noteq> PyStr k) \<longrightarrow> (\<exists>m. entry_failure td params key v = Some (TypeError, m))) \<and>
         (\<forall>k. key = PyStr k \<and> (\<forall>(a, b) \<in> set pre. entry_failure td params a b = None) \<longrightarrow>
            setPyVirTypedParameter td (PyDict items) params (int (length params)) h =
              (Raise LookupError (''Attribute name "'' @ k @ ''" could not be recognized''), h)) \<and>
         ((\<forall>k. key \<noteq> PyStr k) \<and> (\<forall>(a, b) \<in> set pre. entry_failure td params a b = None) \<longrightarrow>
            (\<exists>m. setPyVirTypedParameter td (PyDict items) params (int (length params)) h =
               (Raise TypeError m, h)))\<close>
proof -
  obtain r h' where run: "setPyVirTypedParameter_loop td params (int (length params)) (int (length items))
           items [] (replicate (length items) zero_param)
           (add_mset (Buf_params (length items)) h) = (r, h')"
    by (cases "setPyVirTypedParameter_loop td params (int (length params)) (int (length items))
           items [] (replicate (length items) zero_param)
           (add_mset (Buf_params (length items)) h)") auto
  from whole_heap[OF run] have d: "r \<noteq> Undefined" and f: "\<forall>e m. r = Raise e m \<longrightarrow> h' = h"
    and ok: "\<forall>arr. r = Return arr \<longrightarrow> (\<forall>(k, v) \<in> set items. \<exists>p \<in> set params. k = PyStr (p_field p))"
    by auto
  have ne: "items \<noteq> []" using assms(1) by simp
  have whole: "setPyVirTypedParameter td (PyDict items) params (int (length params)) h = (r, h')"
    using run ne by (simp add: setPyVirTypedParameter_def)
  have first: "setPyVirTypedParameter td (PyDict items) params (int (length params)) h = (Raise e m, h)"
    if "items = pre' @ (k', v') # post'"
      and "\<forall>(a, b) \<in> set pre'. entry_failure td params a b = None"
      and "entry_failure td params k' v' = Some (e, m)"
    for pre' k' v' post' e m
  proof -
    from loop_first_failure[OF that(2,3), of "int (length items)" post' "[]"
        "replicate (length items) zero_param" "add_mset (Buf_params (length items)) h"]
    have "r = Raise e m" using run d that(1) by simp
    with f whole show ?thesis by simp
  qed
  have "\<exists>e m. r = Raise e m"
  proof (cases r)
    case (Return arr)
    with ok assms show ?thesis by auto
  qed (use d in auto)
  with f whole have c1: "\<exists>e m. setPyVirTypedParameter td (PyDict items) params (int (length params)) h = (Raise e m, h)"
    by auto
  have c3: \<open>\<forall>k. key = PyStr k \<longrightarrow>
            entry_failure td params key v =
              Some (LookupError, ''Attribute name "'' @ k @ ''" could not be recognized'')\<close>
  proof (intro allI impI)
    fix k
    assume k: "key = PyStr k"
    from unmatched_failure[OF assms(2), of td v]
    show \<open>entry_failure td params key v =
              Some (LookupError, ''Attribute name "'' @ k @ ''" could not be recognized'')\<close>
      unfolding k by simp
  qed
  have c4: "(\<forall>k. key \<noteq> PyStr k) \<longrightarrow> (\<exists>m. entry_failure td params key v = Some (TypeError, m))"
    using unmatched_failure[OF assms(2), of td v] by (cases key) simp_all
  have c5: \<open>\<forall>k. key = PyStr k \<and> (\<forall>(a, b) \<in> set pre. entry_failure td params a b = None) \<longrightarrow>
            setPyVirTypedParameter td (PyDict items) params (int (length params)) h =
              (Raise LookupError (''Attribute name "'' @ k @ ''" could not be recognized''), h)\<close>
    using first[OF assms(1)] c3 by blast
  have c2: "\<forall>pre' k' v' post' e m.
            items = pre' @ (k', v') # post' \<and>
            (\<forall>(a, b) \<in> set pre'. entry_failure td params a b = None) \<and>
            entry_failure td params k' v' = Some (e, m) \<longrightarrow>
              setPyVirTypedParameter td (PyDict items) params (int (length params)) h = (Raise e m, h)"
    by (intro allI impI, elim conjE, rule first)
  have c6: "(\<forall>k. key \<noteq> PyStr k) \<and> (\<forall>(a, b) \<in> set pre. entry_failure td params a b = None) \<longrightarrow>
            (\<exists>m. setPyVirTypedParameter td (PyDict items) params (int (length params)) h =
               (Raise TypeError m, h))"
    using first[OF assms(1)] c4 by blast
  show ?thesis
    by (intro conjI) (rule c1 c2 c3 c4 c5 c6)+
qed

theorem encode_unmatched_key_witness:
  \<open>setPyVirTypedParameter no_double
      (PyDict [(PyStr ''nodeset'', PyStr ''0-3''), (PyStr ''bogus'', PyLong 1)])
      [\<lparr>p_field = ''nodeset'', p_type = VIR_TYPED_PARAM_STRING, p_value = V_s (Some ''0'')\<rparr>] 1 {#Buf_str ''other''#} =
    (Raise LookupError ''Attribute name "bogus" could not be recognized'', {#Buf_str ''other''#}) \<and>
   entry_failure no_double
      [\<lparr>p_field = ''nodeset'', p_type = VIR_TYPED_PARAM_STRING, p_value = V_s (Some ''0'')\<rparr>]
      (PyStr ''nodeset'') (PyStr ''0-3'') = None \<and>
   entry_failure no_double
      [\<lparr>p_field = ''nodeset'', p_type = VIR_TYPED_PARAM_STRING, p_value = V_s (Some ''0'')\<rparr>]
      (PyStr ''bogus'') (PyLong 1) = Some (LookupError, ''Attribute name "bogus" could not be recognized'')\<close>
proof -
  have c: "\<forall>(a, b) \<in> set [(PyStr ''nodeset'', PyStr ''0-3'')].
             entry_failure no_double
               [\<lparr>p_field = ''nodeset'', p_type = VIR_TYPED_PARAM_STRING, p_value = V_s (Some ''0'')\<rparr>] a b = None"
    by (simp add: entry_failure_def conversion_failure_def libvirt_charPtrUnwrap_def raised_def)
  have u: "\<forall>p \<in> set [\<lparr>p_field = ''nodeset'', p_type = VIR_TYPED_PARAM_STRING, p_value = V_s (Some ''0'')\<rparr>].
             PyStr (p_field p) \<noteq> PyStr ''bogus''"
    by simp
  from encode_unmatched_key[OF refl u, of no_double "[(PyStr ''nodeset'', PyStr ''0-3'')]" "PyLong 1" "[]"
      "{#Buf_str ''other''#}"] c
  show ?thesis by simp
qed

text \<open>
  The claim as stated fails: here the key \<open>bogus\<close> matches no field of the schema, and
  the error raised is the type error of the entry before it.
\<close>

theorem encode_unmatched_key_counterexample:
  "setPyVirTypedParameter no_double
      (PyDict [(PyStr ''weight'', PyStr ''heavy''), (PyStr ''bogus'', PyLong 1)])
      [\<lparr>p_field = ''weight'', p_type = VIR_TYPED_PARAM_UINT, p_value = V_ui 500\<rparr>] 1 {#} =
    (Raise TypeError ''an integer is required'', {#})"
  by code_simp

text \<open>A key that is not a string: the entry fails with a type error, whatever the schema.\<close>

lemma encode_key_not_a_string:
  "setPyVirTypedParameter no_double (PyDict [(PyLong 5, PyLong 1)])
      [\<lparr>p_field = ''weight'', p_type = VIR_TYPED_PARAM_UINT, p_value = V_ui 500\<rparr>] 1 {#} =
    (Raise TypeError ''expected a string'', {#})"
  by code_simp

section \<open>Decoding, then encoding against the decoded set\<close>

lemma find_param_distinct:
  "distinct (map p_field P) \<Longrightarrow> q \<in> set P \<Longrightarrow> find_param (length P) P (p_field q) = Some (Some q)"
  by (induction P) (auto simp: rev_image_eqI)

lemma PyDict_SetItem_fresh:
  "key \<notin> fst ` set info \<Longrightarrow> PyDict_SetItem info key val = info @ [(key, val)]"
  by (induction info) auto

lemma word_of_int_sint_id: "word_of_int (sint w) = (w :: 'a::len word)"
  by (metis scast_eq scast_id)

lemma sint_small_uint:
  assumes "(w :: 32 word) < 2 ^ 31"
  shows "sint w = uint w"
proof -
  from assms have "uint w < 2 ^ 31" by (simp add: word_less_def)
  moreover have "0 \<le> uint w" by simp
  ultimately have "signed_take_bit 31 (uint w) = uint w"
    by (intro signed_take_bit_int_eq_self) linarith+
  then show ?thesis by (simp add: sint_uint)
qed

lemma int_roundtrip: "libvirt_intUnwrap (libvirt_intWrap i) = Return i"
  using sint_ge[of i] sint_lt[of i]
  by (simp add: libvirt_intUnwrap_def libvirt_intWrap_def word_of_int_sint_id)

lemma uint_roundtrip:
  assumes "ui < 2 ^ 31"
  shows "libvirt_uintUnwrap (libvirt_intWrap ui) = Return ui"
proof -
  have "\<not> uint ui < - 9223372036854775808" using uint_ge_0[of ui] by linarith
  moreover have "uint ui < 2 ^ 32" using uint_lt2p[of ui] by simp
  ultimately show ?thesis
    by (simp add: libvirt_uintUnwrap_def libvirt_intWrap_def sint_small_uint[OF assms])
qed

lemma llong_roundtrip: "libvirt_longlongUnwrap (libvirt_longlongWrap l) = Return l"
  using sint_ge[of l] sint_lt[of l]
  by (simp add: libvirt_longlongUnwrap_def libvirt_longlongWrap_def word_of_int_sint_id)

lemma ullong_roundtrip: "libvirt_ulonglongUnwrap (libvirt_ulonglongWrap ul) = Return ul"
  using uint_lt2p[of ul]
  by (simp add: libvirt_ulonglongUnwrap_def libvirt_ulonglongWrap_def)

lemma double_roundtrip: "libvirt_doubleUnwrap td (PyFloat_FromDouble d) = Return d"
  by (simp add: libvirt_doubleUnwrap_def PyFloat_FromDouble_def)

lemma bool_roundtrip:
  "b = 0 \<or> b = 1 \<Longrightarrow> libvirt_boolUnwrap (PyBool_FromLong (sint (b :: 8 word))) = Return (b = 1)"
  by (auto simp: libvirt_boolUnwrap_def PyBool_FromLong_def)

lemma str_roundtrip: "libvirt_charPtrUnwrap (libvirt_constcharPtrWrap (Some s)) = Return s"
  by (simp add: libvirt_charPtrUnwrap_def libvirt_constcharPtrWrap_def)

lemma entry_roundtrip:
  assumes "distinct (map p_field P)" and "q \<in> set P" and "wf_param q" and "uint_below_int_max q"
  shows "\<exists>h'. setPyVirTypedParameter_entry td P (int (length P)) (PyStr (p_field q)) (wrapped q) zero_param h
              = (Return (), q, h')"
proof -
  have f: "find_param (length P) P (p_field q) = Some (Some q)"
    using assms(1,2) by (rule find_param_distinct)
  have len: "take 79 (p_field q) = p_field q" using assms(3) by (simp add: wf_param_def)
  show ?thesis
  proof (cases "p_value q")
    case (V_i x)
    with assms(3) have "p_type q = 1" by (auto simp: wf_param_def known_kind_def)
    with V_i f len show ?thesis
      by (cases q) (simp add: setPyVirTypedParameter_entry_def libvirt_charPtrUnwrap_def wrapped_def
          wrap_param_value_def store_value_def int_roundtrip zero_param_def)
  next
    case (V_ui x)
    with assms(3) have "p_type q = 2" by (auto simp: wf_param_def known_kind_def)
    moreover from V_ui assms(4) have "x < 2 ^ 31" by (simp add: uint_below_int_max_def)
    ultimately show ?thesis using V_ui f len
      by (cases q) (simp add: setPyVirTypedParameter_entry_def libvirt_charPtrUnwrap_def wrapped_def
          wrap_param_value_def store_value_def uint_roundtrip zero_param_def)
  next
    case (V_l x)
    with assms(3) have "p_type q = 3" by (auto simp: wf_param_def known_kind_def)
    with V_l f len show ?thesis
      by (cases q) (simp add: setPyVirTypedParameter_entry_def libvirt_charPtrUnwrap_def wrapped_def
          wrap_param_value_def store_value_def llong_roundtrip zero_param_def)
  next
    case (V_ul x)
    with assms(3) have "p_type q = 4" by (auto simp: wf_param_def known_kind_def)
    with V_ul f len show ?thesis
      by (cases q) (simp add: setPyVirTypedParameter_entry_def libvirt_charPtrUnwrap_def wrapped_def
          wrap_param_value_def store_value_def ullong_roundtrip zero_param_def)
  next
    case (V_d x)
    with assms(3) have "p_type q = 5" by (auto simp: wf_param_def known_kind_def)
    with V_d f len show ?thesis
      by (cases q) (simp add: setPyVirTypedParameter_entry_def libvirt_charPtrUnwrap_def wrapped_def
          wrap_param_value_def store_value_def double_roundtrip zero_param_def)
  next
    case (V_b x)
    with assms(3) have "p_type q = 6" and "x = 0 \<or> x = 1" by (auto simp: wf_param_def known_kind_def)
    with V_b f len show ?thesis
      by (cases q) (auto simp add: setPyVirTypedParameter_entry_def libvirt_charPtrUnwrap_def wrapped_def
          wrap_param_value_def store_value_def bool_roundtrip zero_param_def)
  next
    case (V_s x)
    with assms(3) obtain s where "p_type q = 7" and "x = Some s" by (auto simp: wf_param_def known_kind_def)
    with V_s f len show ?thesis
      by (cases q) (simp add: setPyVirTypedParameter_entry_def libvirt_charPtrUnwrap_def wrapped_def
          wrap_param_value_def store_value_def libvirt_constcharPtrWrap_def zero_param_def)
  qed
qed

lemma wrap_known_wrapped: "known_kind q \<Longrightarrow> wrap_param_value q = Return (wrapped q)"
  by (auto simp: known_kind_def wrap_param_value_def wrapped_def)

lemma decode_loop_distinct:
  assumes "\<forall>p \<in> set P. known_kind p" and "distinct (map p_field P)"
    and "\<forall>p \<in> set P. PyStr (p_field p) \<notin> fst ` set info"
  shows "getPyVirTypedParameter_loop (length P) P info =
           Return (PyDict (info @ map (\<lambda>p. (PyStr (p_field p), wrapped p)) P))"
  using assms
proof (induction P arbitrary: info)
  case Nil
  then show ?case by simp
next
  case (Cons q P)
  have fresh: "PyStr (p_field q) \<notin> fst ` set info" using Cons.prems(3) by simp
  have rest: "\<forall>p \<in> set P. PyStr (p_field p) \<notin> fst ` set (info @ [(PyStr (p_field q), wrapped q)])"
    using Cons.prems(2,3) by (auto simp: rev_image_eqI)
  have "getPyVirTypedParameter_loop (length P) P (info @ [(PyStr (p_field q), wrapped q)]) =
          Return (PyDict ((info @ [(PyStr (p_field q), wrapped q)]) @ map (\<lambda>p. (PyStr (p_field p), wrapped p)) P))"
    using Cons.prems by (intro Cons.IH rest) auto
  then show ?case
    using Cons.prems(1) fresh
    by (simp add: wrap_known_wrapped libvirt_constcharPtrWrap_def PyDict_SetItem_fresh)
qed

lemma encode_loop_roundtrip:
  assumes "distinct (map p_field P)"
    and "\<forall>q \<in> set qs. q \<in> set P \<and> wf_param q \<and> uint_below_int_max q"
  shows "fst (setPyVirTypedParameter_loop td P (int (length P)) sz
                (map (\<lambda>p. (PyStr (p_field p), wrapped p)) qs) filled
                (replicate (length qs) zero_param) h) = Return (filled @ qs)"
  using assms(2)
proof (induction qs arbitrary: filled h)
  case Nil
  then show ?case by simp
next
  case (Cons q qs)
  from Cons.prems have q: "q \<in> set P" "wf_param q" "uint_below_int_max q" by auto
  from entry_roundtrip[OF assms(1) q] obtain h' where
    "setPyVirTypedParameter_entry td P (int (length P)) (PyStr (p_field q)) (wrapped q) zero_param h
       = (Return (), q, h')" by blast
  moreover have "fst (setPyVirTypedParameter_loop td P (int (length P)) sz
                (map (\<lambda>p. (PyStr (p_field p), wrapped p)) qs) (filled @ [q])
                (replicate (length qs) zero_param) h') = Return ((filled @ [q]) @ qs)"
    using Cons.prems by (intro Cons.IH) auto
  ultimately show ?case by simp
qed

text \<open>
  Where the round trip holds. For every non-empty typed-parameter set \<open>P\<close> whose
  elements are well-formed (one of the seven kinds with the union member of that kind
  stored, a name that fits the field, a boolean of 0 or 1, a string that is not
  \<^verbatim>\<open>NULL\<close>), have distinct names, and hold no unsigned 32-bit value of \<open>2 ^ 31\<close> or
  more: decoding \<open>P\<close> succeeds, and encoding the decoded dictionary against \<open>P\<close> as
  the schema returns an array equal to \<open>P\<close>, element by element in name, kind and
  value.
\<close>

lemma round_trip_below_int_max:
  assumes "P \<noteq> []" and "distinct (map p_field P)"
    and "\<forall>p \<in> set P. wf_param p" and "\<forall>p \<in> set P. uint_below_int_max p"
  shows "\<exists>info. getPyVirTypedParameter P (int (length P)) = Return info \<and>
           fst (setPyVirTypedParameter to_double info P (int (length P)) h) = Return P"
proof -
  let ?items = "map (\<lambda>p. (PyStr (p_field p), wrapped p)) P"
  have k: "\<forall>p \<in> set P. known_kind p" using assms(3) by (simp add: wf_param_def)
  have "getPyVirTypedParameter_loop (length P) P [] = Return (PyDict ([] @ ?items))"
    using k assms(2) by (intro decode_loop_distinct) auto
  then have dec: "getPyVirTypedParameter P (int (length P)) = Return (PyDict ?items)"
    by (simp add: getPyVirTypedParameter_def)
  have "fst (setPyVirTypedParameter_loop to_double P (int (length P)) (int (length P)) ?items []
                (replicate (length P) zero_param) (add_mset (Buf_params (length P)) h)) = Return ([] @ P)"
    using assms(2,3,4) by (intro encode_loop_roundtrip) auto
  with assms(1) have "fst (setPyVirTypedParameter to_double (PyDict ?items) P (int (length P)) h) = Return P"
    by (simp add: setPyVirTypedParameter_def)
  with dec show ?thesis by blast
qed

lemma round_trip_sample_set:
  "getPyVirTypedParameter sample_set 6 =
     Return (PyDict [(PyStr ''cpu_shares'', PyLong 1024), (PyStr ''vcpu_quota'', PyLong (- 1)),
       (PyStr ''weight'', PyLong 500), (PyStr ''nice'', PyLong (- 5)),
       (PyStr ''enabled'', PyBool True), (PyStr ''nodeset'', PyStr ''0-3'')]) \<and>
   fst (setPyVirTypedParameter no_double
     (PyDict [(PyStr ''cpu_shares'', PyLong 1024), (PyStr ''vcpu_quota'', PyLong (- 1)),
       (PyStr ''weight'', PyLong 500), (PyStr ''nice'', PyLong (- 5)),
       (PyStr ''enabled'', PyBool True), (PyStr ''nodeset'', PyStr ''0-3'')]) sample_set 6 {#}) = Return sample_set"
proof -
  have d: "getPyVirTypedParameter sample_set 6 =
     Return (PyDict [(PyStr ''cpu_shares'', PyLong 1024), (PyStr ''vcpu_quota'', PyLong (- 1)),
       (PyStr ''weight'', PyLong 500), (PyStr ''nice'', PyLong (- 5)),
       (PyStr ''enabled'', PyBool True), (PyStr ''nodeset'', PyStr ''0-3'')])"
    by code_simp
  have "sample_set \<noteq> []" "distinct (map p_field sample_set)"
    "\<forall>p \<in> set sample_set. wf_param p" "\<forall>p \<in> set sample_set. uint_below_int_max p"
    by (simp_all add: sample_set_def wf_param_def known_kind_def uint_below_int_max_def)
  from round_trip_below_int_max[OF this, of no_double "{#}"] d show ?thesis
    by (simp add: sample_set_def)
qed

text \<open>
  The empty set decodes to the empty dictionary, which the encoder refuses by the guard
  of lines 168 to 173.
\<close>

lemma round_trip_empty_set:
  "getPyVirTypedParameter [] 0 = Return (PyDict []) \<and>
   fst (setPyVirTypedParameter no_double (PyDict []) [] 0 {#}) = Raise LookupError ''Dictionary must not be empty''"
  by (simp add: getPyVirTypedParameter_def size_t_of_int_def setPyVirTypedParameter_def)

text \<open>
  Wrapped by \<^verbatim>\<open>libvirt_uintWrap\<close>, as unsigned values are on lines 2077, 7994, 8231
  and 8461 of the file, every unsigned value converts back.
\<close>

lemma uintWrap_roundtrip: "libvirt_uintUnwrap (libvirt_uintWrap ui) = Return ui"
proof -
  have "\<not> uint ui < - 9223372036854775808" using uint_ge_0[of ui] by linarith
  moreover have "uint ui < 2 ^ 32" using uint_lt2p[of ui] by simp
  ultimately show ?thesis
    by (simp add: libvirt_uintUnwrap_def libvirt_uintWrap_def)
qed

text \<open>
  C1. The round trip fails on a set that holds an unsigned 32-bit value of \<open>2 ^ 31\<close> or
  more, here the one element \<open>weight\<close> of kind UInt32 and value \<open>4294967295\<close>: line 93
  passes the unsigned member to \<^verbatim>\<open>libvirt_intWrap\<close>, so the value decodes to the
  host integer \<open>- 1\<close>, and encoding the decoded dictionary against the set itself is
  refused by \<^verbatim>\<open>libvirt_uintUnwrap\<close> with an overflow error: no array is returned.
\<close>

theorem round_trip_uint_failure:
  "getPyVirTypedParameter [\<lparr>p_field = ''weight'', p_type = VIR_TYPED_PARAM_UINT, p_value = V_ui 4294967295\<rparr>] 1 =
     Return (PyDict [(PyStr ''weight'', PyLong (- 1))]) \<and>
   setPyVirTypedParameter no_double (PyDict [(PyStr ''weight'', PyLong (- 1))])
     [\<lparr>p_field = ''weight'', p_type = VIR_TYPED_PARAM_UINT, p_value = V_ui 4294967295\<rparr>] 1 {#} =
     (Raise OverflowError ''Python int too large to convert to C unsigned int'', {#})"
  by code_simp

section \<open>Properties of the encoder with inferred kinds\<close>

lemma find_hint_map_of:
  "valid_hints hints \<Longrightarrow>
   find_hint hints keystr = (case map_of hints keystr of Some kind \<Rightarrow> kind | None \<Rightarrow> - 1)"
  by (induction hints) (auto simp: valid_hints_def)

lemma valid_hints_range:
  "valid_hints hints \<Longrightarrow> map_of hints keystr = Some kind \<Longrightarrow> 1 \<le> kind \<and> kind \<le> 7"
  by (induction hints) (auto simp: valid_hints_def split: if_splits)

lemma add_converted_map:
  "add_converted (map_outcome f r, raised (map_outcome f r)) g =
   add_converted (r, raised r) (\<lambda>v. g (f v))"
  by (cases r) (simp_all add: add_converted_def raised_def)

lemma same_but_message_refl [simp]: "same_but_message a a"
  by (auto simp: same_but_message_def split: param_one.splits option.splits)

text \<open>With no exception set at the call, the unwrappers are those of the explicit-schema encoder.\<close>

lemma unwrap_err_clear:
  "libvirt_intUnwrap_err obj None = (libvirt_intUnwrap obj, raised (libvirt_intUnwrap obj))"
  "libvirt_uintUnwrap_err obj None = (libvirt_uintUnwrap obj, raised (libvirt_uintUnwrap obj))"
  "libvirt_longlongUnwrap_err obj None = (libvirt_longlongUnwrap obj, raised (libvirt_longlongUnwrap obj))"
  "libvirt_ulonglongUnwrap_err obj None = (libvirt_ulonglongUnwrap obj, raised (libvirt_ulonglongUnwrap obj))"
  "libvirt_doubleUnwrap_err td obj None = (libvirt_doubleUnwrap td obj, raised (libvirt_doubleUnwrap td obj))"
  "libvirt_boolUnwrap_err obj None = (libvirt_boolUnwrap obj, raised (libvirt_boolUnwrap obj))"
  "libvirt_charPtrUnwrap_err obj None = (libvirt_charPtrUnwrap obj, raised (libvirt_charPtrUnwrap obj))"
  by (auto simp: libvirt_intUnwrap_err_def libvirt_intUnwrap_def libvirt_uintUnwrap_err_def
      libvirt_uintUnwrap_def libvirt_longlongUnwrap_err_def libvirt_longlongUnwrap_def
      libvirt_ulonglongUnwrap_err_def libvirt_ulonglongUnwrap_def libvirt_doubleUnwrap_err_def
      libvirt_boolUnwrap_err_def libvirt_boolUnwrap_def libvirt_charPtrUnwrap_err_def
      libvirt_charPtrUnwrap_def PyErr_SetString_def PyErr_Occurred_def raised_def
      split: option.splits outcome.splits PyObject.splits)

lemma hinted:
  assumes "1 \<le> kind" "kind \<le> 7" "find_hint hints keystr = kind"
  shows "virPyDictToTypedParamOne td params hints keystr val None =
         add_converted (convert_to_kind td kind val, raised (convert_to_kind td kind val))
           (virTypedParamsAdd params keystr kind)"
proof -
  from assms(1,2) have "kind = 1 \<or> kind = 2 \<or> kind = 3 \<or> kind = 4 \<or> kind = 5 \<or> kind = 6 \<or> kind = 7"
    by arith
  then show ?thesis
    using assms(3)
    by (elim disjE)
      (simp_all add: virPyDictToTypedParamOne_def virPyDictToTypedParamOne_type_def convert_to_kind_def
        add_converted_map unwrap_err_clear)
qed

lemma unhinted_type:
  "find_hint hints keystr = - 1 \<Longrightarrow>
   virPyDictToTypedParamOne_type hints keystr val None =
     (case val of
           PyStr s \<Rightarrow> (7, None)
         | PyBool b \<Rightarrow> (6, None)
         | PyLong n \<Rightarrow>
             if n < 0 then (3, Some (OverflowError, ''can't convert negative int to unsigned''))
             else if 2 ^ 64 \<le> n then (3, Some (OverflowError, ''int too big to convert''))
             else (4, None)
         | PyFloat d \<Rightarrow> (5, None)
         | _ \<Rightarrow> (- 1, None))"
  by (simp add: virPyDictToTypedParamOne_type_def Let_def PyLong_AsUnsignedLongLong_def
      PyErr_Occurred_def split: PyObject.split)

lemma unhinted:
  assumes "find_hint hints keystr = - 1" "map_of hints keystr = None"
    and "\<not> negative_unhinted hints keystr val"
  shows "same_but_message (virPyDictToTypedParamOne td params hints keystr val None)
           (claimed_result td params hints keystr val)"
proof (cases val)
  case (PyLong n)
  with assms have nn: "\<not> n < 0" by (simp add: negative_unhinted_def)
  show ?thesis
  proof (cases "2 ^ 64 \<le> n")
    case True
    then have "\<not> n < 2 ^ 63" "\<not> n < 18446744073709551616" "\<not> n < - (2 ^ 63)" "2 ^ 63 \<le> n"
      by simp_all
    then show ?thesis
      using assms(1,2) PyLong True nn
      by (simp add: virPyDictToTypedParamOne_def unhinted_type claimed_result_def claimed_kind_def
          convert_to_kind_def add_converted_def libvirt_longlongUnwrap_err_def
          libvirt_ulonglongUnwrap_def same_but_message_def PyErr_SetString_def raised_def)
  next
    case False
    then show ?thesis
      using assms(1,2) PyLong nn
      by (simp add: virPyDictToTypedParamOne_def unhinted_type claimed_result_def claimed_kind_def
          convert_to_kind_def add_converted_map unwrap_err_clear)
  qed
qed (use assms(1,2) in \<open>simp_all add: virPyDictToTypedParamOne_def unhinted_type claimed_result_def
          claimed_kind_def convert_to_kind_def add_converted_map unwrap_err_clear\<close>)

text \<open>
  Apart from an integer that is negative and has no hint, the function does to an entry
  what the claimed precedence says, when no exception is set at the call and the hints
  name kinds: the result is that of converting the value to the claimed kind and
  appending it under the key, and no exception is left set unless the entry fails.
\<close>

lemma precedence_but_negative_integers:
  assumes "valid_hints hints" and "\<not> negative_unhinted hints keystr val"
  shows "same_but_message (virPyDictToTypedParamOne td params hints keystr val None)
           (claimed_result td params hints keystr val)"
proof (cases "map_of hints keystr")
  case None
  with find_hint_map_of[OF assms(1), of keystr] have "find_hint hints keystr = - 1" by simp
  from unhinted[OF this None assms(2)] show ?thesis .
next
  case (Some kind)
  with find_hint_map_of[OF assms(1), of keystr] have f: "find_hint hints keystr = kind" by simp
  from valid_hints_range[OF assms(1) Some] have r: "1 \<le> kind" "kind \<le> 7" by auto
  from hinted[OF r f] Some show ?thesis
    by (simp add: claimed_result_def claimed_kind_def)
qed

text \<open>
  C6. The claim fails on an entry without a hint whose value is the integer \<open>- 1\<close>: the
  kind selected is Int64, as claimed, but the overflow error that the probe of line 306
  has set is still set when \<^verbatim>\<open>libvirt_longlongUnwrap\<close> converts the value, so the
  result \<open>- 1\<close> is taken for a failed conversion: nothing is added and the encode is
  aborted with that overflow error, where the claimed precedence adds the Int64 element.
  Another negative integer, here \<open>- 5\<close>, is added as Int64 and the function returns 0
  with the overflow error left set.
\<close>

theorem negative_integer_keeps_probe_error:
  "virPyDictToTypedParamOne_type [] ''vcpu_quota'' (PyLong (- 1)) None =
     (VIR_TYPED_PARAM_LLONG, Some (OverflowError, ''can't convert negative int to unsigned'')) \<and>
   virPyDictToTypedParamOne no_double [] [] ''vcpu_quota'' (PyLong (- 1)) None =
     Rv_fail (Some (OverflowError, ''can't convert negative int to unsigned'')) \<and>
   claimed_result no_double [] [] ''vcpu_quota'' (PyLong (- 1)) =
     Rv_ok [\<lparr>p_field = ''vcpu_quota'', p_type = VIR_TYPED_PARAM_LLONG, p_value = V_l (- 1)\<rparr>] None \<and>
   virPyDictToTypedParamOne no_double [] [] ''vcpu_quota'' (PyLong (- 5)) None =
     Rv_ok [\<lparr>p_field = ''vcpu_quota'', p_type = VIR_TYPED_PARAM_LLONG, p_value = V_l (- 5)\<rparr>]
       (Some (OverflowError, ''can't convert negative int to unsigned'')) \<and>
   claimed_result no_double [] [] ''vcpu_quota'' (PyLong (- 5)) =
     Rv_ok [\<lparr>p_field = ''vcpu_quota'', p_type = VIR_TYPED_PARAM_LLONG, p_value = V_l (- 5)\<rparr>] None"
  by code_simp

text \<open>
  The exception left set misleads the entry that follows: with it set at the call, the
  integer \<open>2 ^ 64 - 1\<close>, which fits UInt64, is taken for one that does not convert.
\<close>

lemma stale_error_at_next_entry:
  "virPyDictToTypedParamOne no_double [] [] ''bandwidth'' (PyLong (2 ^ 64 - 1))
       (Some (OverflowError, ''can't convert negative int to unsigned'')) =
     Rv_fail (Some (OverflowError, ''Python int too large to convert to C long long'')) \<and>
   virPyDictToTypedParamOne no_double [] [] ''bandwidth'' (PyLong (2 ^ 64 - 1)) None =
     Rv_ok [\<lparr>p_field = ''bandwidth'', p_type = VIR_TYPED_PARAM_ULLONG, p_value = V_ul (- 1)\<rparr>] None"
  by code_simp

text \<open>
  An integer of \<open>2 ^ 64\<close> or more leaves \<^verbatim>\<open>type\<close> at Int64, not UInt64; it converts
  to neither, so the entry fails with an overflow error under either kind.
\<close>

lemma integer_beyond_unsigned_range:
  "virPyDictToTypedParamOne_type [] ''bandwidth'' (PyLong (2 ^ 64)) None =
     (VIR_TYPED_PARAM_LLONG, Some (OverflowError, ''int too big to convert'')) \<and>
   virPyDictToTypedParamOne no_double [] [] ''bandwidth'' (PyLong (2 ^ 64)) None =
     Rv_fail (Some (OverflowError, ''Python int too large to convert to C long long'')) \<and>
   claimed_result no_double [] [] ''bandwidth'' (PyLong (2 ^ 64)) =
     Rv_fail (Some (OverflowError, ''int too big to convert''))"
  by code_simp

section \<open>Properties of the scheduler-parameter entry points\<close>



subsection \<open>The entry point without flags releases what it allocates\<close>

lemma loop_heap_ok:
  assumes "\<forall>t \<in> set filled. wf_entry t"
    and "setPyVirTypedParameter_loop td params (int (length params)) sz
           items filled (replicate (length items) zero_param)
           (h0 + {#Buf_params (length filled + length items)#} + sum_list (map owned filled)) = (Return arr, h')"
  shows "h' = h0 + {#Buf_params (length arr)#} + sum_list (map owned arr) \<and>
         (\<forall>t \<in> set arr. wf_entry t) \<and> length arr = length filled + length items"
  using assms
proof (induction items arbitrary: filled)
  case Nil
  then show ?case by auto
next
  case (Cons kv items)
  obtain key val where kv: "kv = (key, val)" by (cases kv)
  let ?h = "h0 + {#Buf_params (length filled + length (kv # items))#} + sum_list (map owned filled)"
  obtain st t h1 where e: "setPyVirTypedParameter_entry td params (int (length params)) key val zero_param ?h = (st, t, h1)"
    by (metis prod_cases3)
  show ?case
  proof (cases st)
    case (Return u)
    from entry_Return[OF e[unfolded Return]] have t: "wf_entry t" "h1 = ?h + owned t" by auto
    have wf: "\<forall>x \<in> set (filled @ [t]). wf_entry x" using Cons.prems(1) t(1) by auto
    have run: "setPyVirTypedParameter_loop td params (int (length params)) sz
           items (filled @ [t]) (replicate (length items) zero_param)
           (h0 + {#Buf_params (length (filled @ [t]) + length items)#} + sum_list (map owned (filled @ [t]))) = (Return arr, h')"
      using Cons.prems(2) e Return t(2) by (simp add: kv ac_simps)
    from Cons.IH[OF wf run] show ?thesis by simp
  next
    case (Raise e' m')
    with Cons.prems(2) e show ?thesis by (auto simp: kv split: option.splits)
  next
    case Undefined
    with entry_defined[OF e] show ?thesis by simp
  qed
qed

lemma find_param_prefix: "find_param (length xs) (xs @ ys) k = find_param (length xs) xs k"
  by (induction xs) auto

lemma entry_prefix:
  "setPyVirTypedParameter_entry td (xs @ ys) (int (length xs)) key val temp h =
   setPyVirTypedParameter_entry td xs (int (length xs)) key val temp h"
  by (cases "libvirt_charPtrUnwrap key")
    (simp_all add: setPyVirTypedParameter_entry_def find_param_prefix)

lemma loop_prefix:
  "setPyVirTypedParameter_loop td (xs @ ys) (int (length xs)) sz items filled rest h =
   setPyVirTypedParameter_loop td xs (int (length xs)) sz items filled rest h"
proof (induction items arbitrary: filled rest h)
  case Nil
  then show ?case by simp
next
  case (Cons kv items)
  obtain key val where kv: "kv = (key, val)" by (cases kv)
  show ?case
    by (cases rest)
      (auto simp: kv entry_prefix Cons.IH split: prod.splits outcome.splits option.splits)
qed

lemma set_prefix:
  "setPyVirTypedParameter td info (xs @ ys) (int (length xs)) h =
   setPyVirTypedParameter td info xs (int (length xs)) h"
  by (simp add: setPyVirTypedParameter_def loop_prefix split: PyObject.splits)

lemma set_outcome:
  assumes "setPyVirTypedParameter td info xs (int (length xs)) h = (r, h')"
  shows "r \<noteq> Undefined \<and> (\<forall>e m. r = Raise e m \<longrightarrow> h' = h) \<and>
         (\<forall>arr. r = Return arr \<longrightarrow>
            h' = h + {#Buf_params (length arr)#} + sum_list (map owned arr) \<and>
            (\<forall>t \<in> set arr. wf_entry t) \<and> (\<exists>items. info = PyDict items \<and> length arr = length items))"
proof (cases info)
  case (PyDict items)
  show ?thesis
  proof (cases "items = []")
    case True
    with assms PyDict show ?thesis by (auto simp: setPyVirTypedParameter_def)
  next
    case False
    with assms PyDict have run: "setPyVirTypedParameter_loop td xs (int (length xs)) (int (length items)) items []
                 (replicate (length items) zero_param) (add_mset (Buf_params (length items)) h) = (r, h')"
      by (simp add: setPyVirTypedParameter_def)
    from whole_heap[OF run] have a: "r \<noteq> Undefined" "\<forall>e m. r = Raise e m \<longrightarrow> h' = h" by auto
    have "\<forall>arr. r = Return arr \<longrightarrow>
            h' = h + {#Buf_params (length arr)#} + sum_list (map owned arr) \<and>
            (\<forall>t \<in> set arr. wf_entry t) \<and> length arr = length items"
      using loop_heap_ok[of "[]" td xs "int (length items)" items h _ h'] run by auto
    with a PyDict show ?thesis by auto
  qed
qed (use assms in \<open>auto simp: setPyVirTypedParameter_def\<close>)

lemma free_counted:
  assumes "\<forall>t \<in> set (take k arr). wf_entry t" and "k \<le> length arr"
  shows "virTypedParamsFree (Some arr) (int k) hh =
           Some (hh - sum_list (map owned (take k arr)) - {#Buf_params (length arr)#})"
  using assms by (simp add: virTypedParamsFree_def clear_wf)

lemma filled_array_alt:
  "filled_array n current = take n current @ replicate (n - length (take n current)) zero_param"
  by (simp add: filled_array_def min_def)

lemma free_filled:
  assumes "\<forall>p \<in> set got. wf_entry p" and "length got \<le> n"
  shows "virTypedParamsFree (Some (got @ replicate (n - length got) zero_param)) (int (length got))
           (hh + {#Buf_params n#} + sum_list (map owned got)) = Some hh"
proof -
  let ?arr = "got @ replicate (n - length got) zero_param"
  have t: "take (length got) ?arr = got" by simp
  have wf: "\<forall>t \<in> set (take (length got) ?arr). wf_entry t" unfolding t using assms(1) .
  have l: "length ?arr = n" using assms(2) by simp
  have le: "length got \<le> length ?arr" by simp
  from free_counted[OF wf le, of "hh + {#Buf_params n#} + sum_list (map owned got)"]
  show ?thesis unfolding t l by simp
qed

lemma cleanup_after_get_failure:
  assumes "hh = add_mset (Buf_params n) h"
  shows "cleanup ret disc None (Some (replicate n zero_param)) (int n) None k hh =
     \<lparr>run_ret = ret, run_heap = h, run_discovered = disc, run_set_call = None,
      run_freed = [(Some (replicate n zero_param), int n), (None, k)]\<rparr>"
proof -
  have "virTypedParamsFree (Some (replicate n zero_param)) (int n) hh = Some h"
    unfolding assms by (simp add: free_counted)
  then show ?thesis unfolding cleanup_def by (simp add: virTypedParamsFree_def)
qed

lemma cleanup_after_encode_failure:
  assumes "\<forall>p \<in> set got. wf_entry p" and "length got \<le> n"
    and "hh = add_mset (Buf_params n) h + sum_list (map owned got)"
  shows "cleanup ret disc None (Some (got @ replicate (n - length got) zero_param)) (int (length got)) None k
           hh =
     \<lparr>run_ret = ret, run_heap = h, run_discovered = disc, run_set_call = None,
      run_freed = [(Some (got @ replicate (n - length got) zero_param), int (length got)), (None, k)]\<rparr>"
proof -
  have "virTypedParamsFree (Some (got @ replicate (n - length got) zero_param)) (int (length got))
          hh = Some h"
    unfolding assms(3) using free_filled[OF assms(1,2), of h] by simp
  then show ?thesis unfolding cleanup_def by (simp add: virTypedParamsFree_def)
qed

lemma cleanup_after_set_call:
  assumes "\<forall>p \<in> set got. wf_entry p" and "length got \<le> n" and "\<forall>t \<in> set arr. wf_entry t"
    and "hh = add_mset (Buf_params n) h + sum_list (map owned got) +
              {#Buf_params (length arr)#} + sum_list (map owned arr)"
  shows "cleanup ret disc call (Some (got @ replicate (n - length got) zero_param)) (int (length got))
           (Some arr) (int (length arr)) hh =
     \<lparr>run_ret = ret, run_heap = h, run_discovered = disc, run_set_call = call,
      run_freed = [(Some (got @ replicate (n - length got) zero_param), int (length got)),
                   (Some arr, int (length arr))]\<rparr>"
proof -
  let ?new = "{#Buf_params (length arr)#} + sum_list (map owned arr)"
  have h: "hh = (h + ?new) + {#Buf_params n#} + sum_list (map owned got)"
    unfolding assms(4) by (simp add: ac_simps)
  have 1: "virTypedParamsFree (Some (got @ replicate (n - length got) zero_param)) (int (length got))
          hh = Some (h + ?new)"
    unfolding h by (rule free_filled[OF assms(1,2)])
  have wf2: "\<forall>t \<in> set (take (length arr) arr). wf_entry t" using assms(3) by simp
  have 2: "virTypedParamsFree (Some arr) (int (length arr)) (h + ?new) = Some h"
    using free_counted[OF wf2 order_refl, of "h + ?new"] by simp
  show ?thesis unfolding cleanup_def 1 option.case 2 by simp
qed

lemma main_branch:
  assumes "items \<noteq> []" and "sched_type domain = Some (ty, np)" and "0 < np"
    and "sched_params domain = Some current"
  shows "libvirt_virDomainSetSchedulerParameters td domain [d, PyDict items] h =
     (case setPyVirTypedParameter td (PyDict items) (take (nat np) current)
             (int (length (take (nat np) current)))
             (add_mset (Buf_params (nat np)) h + sum_list (map owned (take (nat np) current))) of
        (Return new_params, h3) \<Rightarrow>
          cleanup (if set_retval domain < 0 then VIR_PY_INT_FAIL else VIR_PY_INT_SUCCESS)
            (Some np) (Some (new_params, int (length items)))
            (Some (take (nat np) current @
                   replicate (nat np - length (take (nat np) current)) zero_param))
            (int (length (take (nat np) current))) (Some new_params) (int (length items)) h3
      | (Raise e m, h3) \<Rightarrow>
          cleanup (Raise e m) (Some np) None
            (Some (take (nat np) current @
                   replicate (nat np - length (take (nat np) current)) zero_param))
            (int (length (take (nat np) current))) None (int (length items)) h3
      | (Undefined, h3) \<Rightarrow>
          \<lparr>run_ret = Undefined, run_heap = h3, run_discovered = Some np,
           run_set_call = None, run_freed = []\<rparr>)"
  using assms
  by (simp add: libvirt_virDomainSetSchedulerParameters_def Let_def filled_array_alt set_prefix
      del: length_take)

lemma released_all_early [simp]:
  "r \<noteq> Undefined \<Longrightarrow> released_all h args (early_return r disc h)"
  by (simp add: released_all_def early_return_def)

text \<open>
  On every way out of \<^verbatim>\<open>libvirt_virDomainSetSchedulerParameters\<close> (a failed parse,
  an empty dictionary, a failed native call, a failed encode, success) both arrays are
  released, each with a count within its length, and the override array with its own.
\<close>

lemma scheduler_parameters_release:
  assumes "case sched_params domain of None \<Rightarrow> True | Some current \<Rightarrow> list_all wf_entry current"
  shows "released_all h args (libvirt_virDomainSetSchedulerParameters td domain args h)"
proof (cases "\<exists>d items. args = [d, PyDict items] \<and> items \<noteq> []")
  case False
  then show ?thesis
    by (auto simp: libvirt_virDomainSetSchedulerParameters_def split: list.splits PyObject.splits)
next
  case True
  then obtain d items where args: "args = [d, PyDict items]" and ne: "items \<noteq> []" by blast
  show ?thesis
  proof (cases "sched_type domain")
    case None
    with ne show ?thesis by (simp add: libvirt_virDomainSetSchedulerParameters_def args)
  next
    case (Some tn)
    obtain ty np where tn: "tn = (ty, np)" by (cases tn)
    show ?thesis
    proof (cases "0 < np")
      case False
      with ne Some tn show ?thesis
        by (simp add: libvirt_virDomainSetSchedulerParameters_def args)
    next
      case pos: True
      then have n: "int (nat np) = np" by simp
      show ?thesis
      proof (cases "sched_params domain")
        case None
        with ne Some tn pos show ?thesis
          by (simp add: libvirt_virDomainSetSchedulerParameters_def args Let_def n
              cleanup_after_get_failure[OF refl, of _ _ "nat np", unfolded n]
              released_all_def size_t_of_int_def)
      next
        case (Some current)
        define got where "got = take (nat np) current"
        have wf: "\<forall>p \<in> set got. wf_entry p"
          using assms Some by (auto simp: got_def list_all_iff dest: in_set_takeD)
        have le: "length got \<le> nat np" by (simp add: got_def)
        let ?h2 = "add_mset (Buf_params (nat np)) h + sum_list (map owned got)"
        obtain r h3 where s: "setPyVirTypedParameter td (PyDict items) got (int (length got)) ?h2 = (r, h3)"
          by (cases "setPyVirTypedParameter td (PyDict items) got (int (length got)) ?h2") auto
        note mb = main_branch[OF ne \<open>sched_type domain = Some tn\<close>[unfolded tn] pos Some, of td d h,
            folded got_def, unfolded s]
        from set_outcome[OF s] have d: "r \<noteq> Undefined" and f: "\<forall>e m. r = Raise e m \<longrightarrow> h3 = ?h2"
          and ok: "\<forall>arr. r = Return arr \<longrightarrow>
            h3 = ?h2 + {#Buf_params (length arr)#} + sum_list (map owned arr) \<and>
            (\<forall>t \<in> set arr. wf_entry t) \<and> length arr = length items"
          by auto
        show ?thesis
        proof (cases r)
          case (Return arr)
          with ok have h3: "h3 = ?h2 + {#Buf_params (length arr)#} + sum_list (map owned arr)"
            and wfa: "\<forall>t \<in> set arr. wf_entry t" and la: "length arr = length items" by auto
          show ?thesis
            unfolding args mb Return la[symmetric] prod.case outcome.case
              cleanup_after_set_call[OF wf le wfa h3]
            by (simp add: released_all_def size_t_of_int_def le la)
        next
          case (Raise e m)
          with f have h3: "h3 = ?h2" by simp
          show ?thesis
            unfolding args mb Raise
            by (simp add: cleanup_after_encode_failure[OF wf le h3] released_all_def size_t_of_int_def le)
        next
          case Undefined
          with d show ?thesis by simp
        qed
      qed
    qed
  qed
qed

text \<open>
  C8, at a failing input: a domain whose scheduler has two parameters, and a dictionary
  that overrides one of them. \<^verbatim>\<open>libvirt_virDomainSetSchedulerParametersFlags\<close> hands
  the native set call the override array with the count 1, the cardinality of the
  dictionary, and then frees that one-element array with the count 2, the length of the
  full schema (line 1102): \<^verbatim>\<open>virTypedParamsFree\<close> reads past its end.
\<close>

theorem flags_frees_override_with_schema_count:
  "run_set_call (libvirt_virDomainSetSchedulerParametersFlags no_double two_field_domain
       [PyNone, PyDict [(PyStr ''cpu_shares'', PyLong 2048)], PyLong 0] {#}) =
     Some ([\<lparr>p_field = ''cpu_shares'', p_type = VIR_TYPED_PARAM_ULLONG, p_value = V_ul 2048\<rparr>], 1) \<and>
   run_freed (libvirt_virDomainSetSchedulerParametersFlags no_double two_field_domain
       [PyNone, PyDict [(PyStr ''cpu_shares'', PyLong 2048)], PyLong 0] {#}) =
     [(Some [\<lparr>p_field = ''cpu_shares'', p_type = VIR_TYPED_PARAM_ULLONG, p_value = V_ul 1024\<rparr>,
             \<lparr>p_field = ''vcpu_quota'', p_type = VIR_TYPED_PARAM_LLONG, p_value = V_l (- 1)\<rparr>], 2),
      (Some [\<lparr>p_field = ''cpu_shares'', p_type = VIR_TYPED_PARAM_ULLONG, p_value = V_ul 2048\<rparr>], 2)] \<and>
   run_ret (libvirt_virDomainSetSchedulerParametersFlags no_double two_field_domain
       [PyNone, PyDict [(PyStr ''cpu_shares'', PyLong 2048)], PyLong 0] {#}) = Undefined"
  by code_simp

text \<open>
  The sibling without flags, on the same domain and dictionary, frees the override array
  with the count 1 (line 1026) and leaves the native heap as it found it.
\<close>

lemma sibling_frees_override_with_its_count:
  "run_freed (libvirt_virDomainSetSchedulerParameters no_double two_field_domain
       [PyNone, PyDict [(PyStr ''cpu_shares'', PyLong 2048)]] {#}) =
     [(Some [\<lparr>p_field = ''cpu_shares'', p_type = VIR_TYPED_PARAM_ULLONG, p_value = V_ul 1024\<rparr>,
             \<lparr>p_field = ''vcpu_quota'', p_type = VIR_TYPED_PARAM_LLONG, p_value = V_l (- 1)\<rparr>], 2),
      (Some [\<lparr>p_field = ''cpu_shares'', p_type = VIR_TYPED_PARAM_ULLONG, p_value = V_ul 2048\<rparr>], 1)] \<and>
   run_ret (libvirt_virDomainSetSchedulerParameters no_double two_field_domain
       [PyNone, PyDict [(PyStr ''cpu_shares'', PyLong 2048)]] {#}) = Return (PyLong 0) \<and>
   run_heap (libvirt_virDomainSetSchedulerParameters no_double two_field_domain
       [PyNone, PyDict [(PyStr ''cpu_shares'', PyLong 2048)]] {#}) = {#}"
  by code_simp

section \<open>Properties of the event bridge\<close>












text \<open>
  C3, as amended. For the remove-handle and the remove-timeout function alike: when the
  host primitive returns a 3-tuple whose third item wraps the release function and whose
  second item wraps the opaque pointer, the release function, when it is not
  \<^verbatim>\<open>NULL\<close>, is called exactly once with the opaque pointer, and the removal returns 0.
  When the primitive raises, the exception is written by \<^verbatim>\<open>PyErr_Print\<close>, no release
  function is called and the removal returns \<open>- 1\<close>. When the primitive returns anything
  that is not a 3-tuple, no release function is called and the removal returns \<open>- 1\<close>;
  nothing is written, the diagnostic being a \<^verbatim>\<open>DEBUG\<close> statement that is compiled out.
\<close>

theorem remove_protocol:
  "(\<forall>r0 opaque ff cff p.
      remove (PyTuple [libvirt_intWrap n]) = Return (PyTuple [r0, opaque, ff]) \<and>
      PyvirFreeCallback_Get ff = Some cff \<and> PyvirVoidPtr_Get opaque = Some p \<longrightarrow>
        rm_retval (libvirt_virEventRemoveHandleFunc st remove n) = Some 0 \<and>
        rm_released (libvirt_virEventRemoveHandleFunc st remove n) = (if cff \<noteq> 0 then [(cff, p)] else []) \<and>
        rm_retval (libvirt_virEventRemoveTimeoutFunc st remove n) = Some 0 \<and>
        rm_released (libvirt_virEventRemoveTimeoutFunc st remove n) = (if cff \<noteq> 0 then [(cff, p)] else [])) \<and>
   (\<forall>e m. remove (PyTuple [libvirt_intWrap n]) = Raise e m \<longrightarrow>
        libvirt_virEventRemoveHandleFunc st remove n =
          \<lparr>rm_retval = Some (- 1), rm_released = [], rm_printed = [(e, m)], rm_debug = []\<rparr> \<and>
        libvirt_virEventRemoveTimeoutFunc st remove n =
          \<lparr>rm_retval = Some (- 1), rm_released = [], rm_printed = [(e, m)], rm_debug = []\<rparr>) \<and>
   (\<forall>result. remove (PyTuple [libvirt_intWrap n]) = Return result \<and> \<not> is_3_tuple result \<longrightarrow>
        libvirt_virEventRemoveHandleFunc st remove n =
          \<lparr>rm_retval = Some (- 1), rm_released = [], rm_printed = [], rm_debug = []\<rparr> \<and>
        libvirt_virEventRemoveTimeoutFunc st remove n =
          \<lparr>rm_retval = Some (- 1), rm_released = [], rm_printed = [], rm_debug = []\<rparr>)"
proof (intro conjI allI impI)
  fix result
  assume a: "remove (PyTuple [libvirt_intWrap n]) = Return result \<and> \<not> is_3_tuple result"
  then have "\<And>r0 opaque ff. result \<noteq> PyTuple [r0, opaque, ff]"
    by (auto simp: is_3_tuple_def)
  with a show "libvirt_virEventRemoveHandleFunc st remove n =
          \<lparr>rm_retval = Some (- 1), rm_released = [], rm_printed = [], rm_debug = []\<rparr>"
    and "libvirt_virEventRemoveTimeoutFunc st remove n =
          \<lparr>rm_retval = Some (- 1), rm_released = [], rm_printed = [], rm_debug = []\<rparr>"
    by (auto simp: libvirt_virEventRemoveHandleFunc_def libvirt_virEventRemoveTimeoutFunc_def
        DEBUG_def DEBUG_ERROR_def split: PyObject.splits list.splits)
qed (auto simp: libvirt_virEventRemoveHandleFunc_def libvirt_virEventRemoveTimeoutFunc_def)

theorem remove_protocol_witness:
  "libvirt_virEventRemoveHandleFunc first_registration
       returns_capsules 7 =
     \<lparr>rm_retval = Some 0, rm_released = [(8192, 4096)], rm_printed = [], rm_debug = []\<rparr> \<and>
   libvirt_virEventRemoveTimeoutFunc first_registration
       raises_type_error 7 =
     \<lparr>rm_retval = Some (- 1), rm_released = [], rm_printed = [(TypeError, ''no such timer'')], rm_debug = []\<rparr> \<and>
   libvirt_virEventRemoveHandleFunc first_registration returns_number 7 =
     \<lparr>rm_retval = Some (- 1), rm_released = [], rm_printed = [], rm_debug = []\<rparr>"
proof -
  have g: "PyvirFreeCallback_Get (PyCapsule 8192) = Some 8192" "PyvirVoidPtr_Get (PyCapsule 4096) = Some 4096"
    by (simp_all add: PyvirFreeCallback_Get_def PyvirVoidPtr_Get_def)
  have n: "\<not> is_3_tuple (PyLong 0)" by (simp add: is_3_tuple_def)
  from remove_protocol[of returns_capsules 7 first_registration]
    remove_protocol[of raises_type_error 7 first_registration]
    remove_protocol[of returns_number 7 first_registration] g n
  show ?thesis
    by (simp add: libvirt_virEventRemoveHandleFunc_def returns_capsules_def raises_type_error_def
        returns_number_def)
qed

text \<open>
  The claim as stated fails: a host primitive that returns a number is not logged.
\<close>

theorem remove_protocol_counterexample:
  "rm_retval (libvirt_virEventRemoveHandleFunc first_registration returns_number 7) = Some (- 1) \<and>
   rm_printed (libvirt_virEventRemoveHandleFunc first_registration returns_number 7) = [] \<and>
   rm_debug (libvirt_virEventRemoveHandleFunc first_registration returns_number 7) = []"
  by (simp add: libvirt_virEventRemoveHandleFunc_def DEBUG_def DEBUG_ERROR_def returns_number_def)

section \<open>Properties of the callbacks that dispatch an event\<close>

lemma rule_cleanup_failed:
  "return_code_rule env (dispatch_cleanup None (Some x) n None)"
  by (simp add: return_code_rule_def dispatch_cleanup_def)

lemma called_cleanup: "cb_called (dispatch_cleanup r err n c) = c"
  by (simp add: dispatch_cleanup_def split: option.split)

lemma rule_call_dispatcher:
  "return_code_rule env (call_dispatcher env pyobj_conn name args)"
  by (simp add: return_code_rule_def call_dispatcher_def PyObject_CallMethod_def dispatch_cleanup_def
      split: option.split method_call.split)

lemma called_call_dispatcher:
  "cb_called (call_dispatcher env pyobj_conn name args) =
     (case pyobj_conn of None \<Rightarrow> None | Some proxy \<Rightarrow> Some (proxy, name, map Py_BuildValue args))"
  by (simp add: call_dispatcher_def called_cleanup split: prod.split)

lemmas callback_defs =
  libvirt_virConnectDomainEventCallback_def
  libvirt_virConnectDomainEventLifecycleCallback_def
  libvirt_virConnectDomainEventGenericCallback_def
  libvirt_virConnectDomainEventRTCChangeCallback_def
  libvirt_virConnectDomainEventWatchdogCallback_def
  libvirt_virConnectDomainEventIOErrorCallback_def
  libvirt_virConnectDomainEventIOErrorReasonCallback_def
  libvirt_virConnectDomainEventGraphicsCallback_def
  libvirt_virConnectDomainEventBlockJobCallback_def
  libvirt_virConnectDomainEventDiskChangeCallback_def
  libvirt_virConnectDomainEventTrayChangeCallback_def
  libvirt_virConnectDomainEventPMWakeupCallback_def
  libvirt_virConnectDomainEventPMSuspendCallback_def
  libvirt_virConnectDomainEventBalloonChangeCallback_def
  libvirt_virConnectDomainEventPMSuspendDiskCallback_def
  libvirt_virConnectDomainEventDeviceRemovedCallback_def
  libvirt_virConnectDomainEventTunableCallback_def
  libvirt_virConnectDomainEventAgentLifecycleCallback_def
  libvirt_virConnectDomainEventDeviceAddedCallback_def
  libvirt_virConnectNetworkEventLifecycleCallback_def

text \<open>
  C9, as amended. For every event the native library delivers, through whichever of the
  callbacks is registered for it: unless the data of the event cannot be read without
  undefined behaviour, the callback returns, and no exception is left set on return. The
  dispatch method of the event is called on the connection proxy exactly when the
  arguments could be wrapped and the proxy was found. The callback returns 0 exactly
  when that method was called and returned a result. It returns \<open>- 1\<close> when the method
  raised, and the exception raised is then written by \<^verbatim>\<open>PyErr_Print\<close>; when the proxy
  has no such method, and the attribute error is written; and when no method was called
  because the proxy was not found or an argument could not be wrapped, and the exception
  then set is written.
\<close>

theorem dispatch_callback_return:
  "case dispatch_callback env ev ptr opaque of
     None \<Rightarrow> unreadable_event ev
   | Some r \<Rightarrow>
       \<not> unreadable_event ev \<and> return_code_rule env r \<and>
       map_option (\<lambda>(proxy, name, args). (proxy, name)) (cb_called r) =
         (if arguments_wrapped env ev
          then map_option (\<lambda>proxy. (proxy, dispatcher_of ev)) (proxy_of ev opaque)
          else None)"
proof (cases ev)
  case (Ev_tunable params nparams)
  show ?thesis
    by (cases "getPyVirTypedParameter params nparams")
      (simp_all add: Ev_tunable dispatch_callback_def libvirt_virConnectDomainEventTunableCallback_def
        unreadable_event_def arguments_wrapped_def proxy_of_def dispatcher_of_def
        rule_cleanup_failed rule_call_dispatcher called_cleanup called_call_dispatcher
        libvirt_constcharPtrWrap_def Let_def split: option.split)
qed (simp_all add: dispatch_callback_def callback_defs
        unreadable_event_def arguments_wrapped_def proxy_of_def dispatcher_of_def
        rule_cleanup_failed rule_call_dispatcher called_cleanup called_call_dispatcher
        libvirt_constcharPtrWrap_def Let_def split: option.split)

theorem dispatch_callback_return_witness:
  "cb_ret (libvirt_virConnectDomainEventLifecycleCallback returning_env 1 2 0
             (PyDict [(PyStr ''conn'', PyCapsule 5)])) = 0 \<and>
   cb_printed (libvirt_virConnectDomainEventLifecycleCallback returning_env 1 2 0
             (PyDict [(PyStr ''conn'', PyCapsule 5)])) = [] \<and>
   cb_ret (libvirt_virConnectDomainEventRTCChangeCallback raising_env 1 3600
             (PyDict [(PyStr ''conn'', PyCapsule 5)])) = - 1 \<and>
   cb_printed (libvirt_virConnectDomainEventRTCChangeCallback raising_env 1 3600
             (PyDict [(PyStr ''conn'', PyCapsule 5)])) = [(TypeError, ''handler failed'')] \<and>
   cb_ret (libvirt_virConnectDomainEventGenericCallback returning_env 1 (PyDict [])) = - 1 \<and>
   length (cb_printed (libvirt_virConnectDomainEventGenericCallback returning_env 1 (PyDict []))) = 1"
proof -
  have c:
    "cb_called (libvirt_virConnectDomainEventLifecycleCallback returning_env 1 2 0
             (PyDict [(PyStr ''conn'', PyCapsule 5)])) =
       Some (PyCapsule 5, ''_dispatchDomainEventLifecycleCallback'',
             [PyCapsule 1, PyLong 2, PyLong 0, PyDict [(PyStr ''conn'', PyCapsule 5)]])"
    "cb_called (libvirt_virConnectDomainEventRTCChangeCallback raising_env 1 3600
             (PyDict [(PyStr ''conn'', PyCapsule 5)])) =
       Some (PyCapsule 5, ''_dispatchDomainEventRTCChangeCallback'',
             [PyCapsule 1, PyLong 3600, PyDict [(PyStr ''conn'', PyCapsule 5)]])"
    "cb_called (libvirt_virConnectDomainEventGenericCallback returning_env 1 (PyDict [])) = None"
    by (simp_all add: libvirt_virConnectDomainEventLifecycleCallback_def
        libvirt_virConnectDomainEventRTCChangeCallback_def libvirt_virConnectDomainEventGenericCallback_def
        returning_env_def raising_env_def called_cleanup called_call_dispatcher
        libvirt_constcharPtrWrap_def PyDict_GetItem_def Py_BuildValue_def)
  have e:
    "dispatch_callback returning_env (Ev_lifecycle 2 0) 1 (PyDict [(PyStr ''conn'', PyCapsule 5)]) =
       Some (libvirt_virConnectDomainEventLifecycleCallback returning_env 1 2 0
               (PyDict [(PyStr ''conn'', PyCapsule 5)]))"
    "dispatch_callback raising_env (Ev_rtc_change 3600) 1 (PyDict [(PyStr ''conn'', PyCapsule 5)]) =
       Some (libvirt_virConnectDomainEventRTCChangeCallback raising_env 1 3600
               (PyDict [(PyStr ''conn'', PyCapsule 5)]))"
    "dispatch_callback returning_env Ev_generic 1 (PyDict []) =
       Some (libvirt_virConnectDomainEventGenericCallback returning_env 1 (PyDict []))"
    by (simp_all add: dispatch_callback_def)
  from dispatch_callback_return[where env = returning_env and ev = "Ev_lifecycle 2 0" and ptr = 1
        and opaque = "PyDict [(PyStr ''conn'', PyCapsule 5)]"]
  have r1: "return_code_rule returning_env
              (libvirt_virConnectDomainEventLifecycleCallback returning_env 1 2 0
                 (PyDict [(PyStr ''conn'', PyCapsule 5)]))"
    unfolding e by simp
  from dispatch_callback_return[where env = raising_env and ev = "Ev_rtc_change 3600" and ptr = 1
        and opaque = "PyDict [(PyStr ''conn'', PyCapsule 5)]"]
  have r2: "return_code_rule raising_env
              (libvirt_virConnectDomainEventRTCChangeCallback raising_env 1 3600
                 (PyDict [(PyStr ''conn'', PyCapsule 5)]))"
    unfolding e by simp
  from dispatch_callback_return[where env = returning_env and ev = Ev_generic and ptr = 1
        and opaque = "PyDict []"]
  have r3: "return_code_rule returning_env
              (libvirt_virConnectDomainEventGenericCallback returning_env 1 (PyDict []))"
    unfolding e by simp
  from r1 r2 r3 show ?thesis
    unfolding return_code_rule_def c by (simp add: returning_env_def raising_env_def)
qed

text \<open>
  The claim as stated fails: the dispatch method is found and called, it raises, and the
  callback returns \<open>- 1\<close>.
\<close>

theorem dispatch_callback_counterexample:
  "cb_called (libvirt_virConnectDomainEventLifecycleCallback raising_env 1 2 0
             (PyDict [(PyStr ''conn'', PyCapsule 5)])) =
     Some (PyCapsule 5, ''_dispatchDomainEventLifecycleCallback'',
           [PyCapsule 1, PyLong 2, PyLong 0, PyDict [(PyStr ''conn'', PyCapsule 5)]]) \<and>
   call_method raising_env (PyCapsule 5) ''_dispatchDomainEventLifecycleCallback''
       [PyCapsule 1, PyLong 2, PyLong 0, PyDict [(PyStr ''conn'', PyCapsule 5)]] =
     Method_raises TypeError ''handler failed'' \<and>
   cb_ret (libvirt_virConnectDomainEventLifecycleCallback raising_env 1 2 0
             (PyDict [(PyStr ''conn'', PyCapsule 5)])) = - 1 \<and>
   cb_printed (libvirt_virConnectDomainEventLifecycleCallback raising_env 1 2 0
             (PyDict [(PyStr ''conn'', PyCapsule 5)])) = [(TypeError, ''handler failed'')]"
  by (simp add: libvirt_virConnectDomainEventLifecycleCallback_def call_dispatcher_def
      PyObject_CallMethod_def dispatch_cleanup_def libvirt_constcharPtrWrap_def PyDict_GetItem_def
      raising_env_def Py_BuildValue_def)

end
